theory Spec2Isabelle
  imports Main "HOL-Library.Char_ord"
begin

section \<open>The Auth47 challenge lifecycle of server.js\<close>

text \<open>
  The server keeps one process-wide \<^verbatim>\<open>Map\<close>, \<open>pendingAuths\<close>, from nonce to an
  authentication record. Each Express handler is modelled as a function that takes the
  request, the clock readings it makes and the store, and returns its response together
  with the store it leaves behind. Node runs a handler without interruption between two
  \<^verbatim>\<open>await\<close>s, so a handler whose store accesses lie in one synchronous stretch is one
  atomic step on the store.
\<close>

subsection \<open>Records of the store\<close>

text \<open>
  The object stored by \<^verbatim>\<open>/start-auth\<close> has the fields \<open>timestamp\<close> (milliseconds),
  \<open>verified\<close> and \<open>expiry\<close> (seconds); a successful redemption adds \<open>nym\<close>,
  \<open>paymentCode\<close>, \<open>challenge\<close> and \<open>signature\<close>. A field that has not been assigned
  is \<open>None\<close>.
\<close>

record auth =
  timestamp :: int
  verified :: bool
  expiry :: int
  nym :: "string option"
  paymentCode :: "string option"
  challenge :: "string option"
  signature :: "string option"

type_synonym store = "string \<Rightarrow> auth option"

subsection \<open>Requests and the capabilities of the platform\<close>

text \<open>
  The JSON body of a redemption request. An absent field is \<open>None\<close>; the handlers test
  each field with JavaScript's \<^verbatim>\<open>!x\<close>, which holds for an absent field and for the
  empty string.
\<close>

record body =
  auth47_response :: "string option"
  body_challenge :: "string option"
  body_nym :: "string option"
  body_signature :: "string option"

definition falsy :: "string option \<Rightarrow> bool" where
  "falsy x = (case x of None \<Rightarrow> True | Some v \<Rightarrow> v = [])"

text \<open>What the handlers read of a parsed \<^verbatim>\<open>URL\<close> object.\<close>

record url =
  hostname :: string
  pathname :: string
  search :: string

text \<open>The three outcomes of \<^verbatim>\<open>verifier.verifyProof\<close>: a result object with
  \<open>result = 'ok'\<close>, a result object carrying an error text, or an exception.\<close>

datatype proof_result = ProofOk | ProofError string | ProofThrows string

text \<open>
  Everything the handlers delegate to Node or to a library is a field of the platform:
  \<^item> \<open>new_URL\<close>: the WHATWG URL parser, \<open>None\<close> when the constructor throws;
  \<^item> \<open>searchParams_get\<close>: \<^verbatim>\<open>new URLSearchParams(search).get(name)\<close>, \<open>None\<close> for \<^verbatim>\<open>null\<close>;
  \<^item> \<open>parseInt\<close>: \<^verbatim>\<open>parseInt(s, 10)\<close>, \<open>None\<close> for \<^verbatim>\<open>NaN\<close>;
  \<^item> \<open>verifyProof\<close>: the Auth47 verifier applied to the request body;
  \<^item> \<open>toDataURL\<close>: the QR encoder, \<open>Inl\<close> the message of the error it throws;
  \<^item> \<open>fromBase58\<close>: whether \<^verbatim>\<open>bip47.fromBase58\<close> returns rather than throws;
  \<^item> \<open>CALLBACK_URL\<close>: the configured callback locator.
  The theorems below hold for every platform.
\<close>

record platform =
  new_URL :: "string \<Rightarrow> url option"
  searchParams_get :: "string \<Rightarrow> string \<Rightarrow> string option"
  parseInt :: "string \<Rightarrow> int option"
  verifyProof :: "body \<Rightarrow> proof_result"
  toDataURL :: "string \<Rightarrow> string + string"
  fromBase58 :: "string \<Rightarrow> bool"
  CALLBACK_URL :: string

subsection \<open>Printing a number\<close>

text \<open>
  The template literal prints the expiry, an integer far below \<open>10\<^sup>2\<^sup>1\<close>, in plain
  decimal notation.
\<close>

definition digit_char :: "nat \<Rightarrow> char" where
  "digit_char d = ''0123456789'' ! d"

fun decimal_nat :: "nat \<Rightarrow> string" where
  "decimal_nat n = (if n < 10 then [digit_char n]
                    else decimal_nat (n div 10) @ [digit_char (n mod 10)])"

declare decimal_nat.simps [simp del]

definition number_toString :: "int \<Rightarrow> string" where
  "number_toString i = (if i < 0 then CHR ''-'' # decimal_nat (nat (- i)) else decimal_nat (nat i))"

subsection \<open>GET /start-auth\<close>

datatype start_response =
    StartJson string string string string int
  | StartError nat string

text \<open>
  The clean-up loop of \<^verbatim>\<open>/start-auth\<close> deletes every entry older than 300000 ms.
\<close>

definition sweep :: "int \<Rightarrow> store \<Rightarrow> store" where
  "sweep now s = (\<lambda>key. case s key of
                      None \<Rightarrow> None
                    | Some v \<Rightarrow> if now - timestamp v > 300000 then None else Some v)"

definition challenge_uri :: "platform \<Rightarrow> string \<Rightarrow> int \<Rightarrow> string" where
  "challenge_uri P nonce e =
     ''auth47://'' @ nonce @ ''?c='' @ CALLBACK_URL P @ ''&e='' @ number_toString e"

text \<open>
  \<open>nonce\<close> is the hex string drawn by \<^verbatim>\<open>crypto.randomBytes(16)\<close>, \<open>now0\<close> the reading of
  \<^verbatim>\<open>Date.now()\<close> before the encoder is awaited, \<open>now1\<close> the reading in the synchronous
  stretch after it (the insertion and the clean-up loop).
\<close>

definition start_auth :: "platform \<Rightarrow> string \<Rightarrow> int \<Rightarrow> int \<Rightarrow> store \<Rightarrow> start_response \<times> store" where
  "start_auth P nonce now0 now1 s =
     (let e = now0 div 1000 + 300;
          uri = challenge_uri P nonce e
      in case toDataURL P uri of
           Inl msg \<Rightarrow> (StartError 500 msg, s)
         | Inr qr \<Rightarrow>
             (StartJson uri qr nonce (CALLBACK_URL P) e,
              sweep now1
                (s(nonce \<mapsto> \<lparr>timestamp = now1, verified = False, expiry = e,
                              nym = None, paymentCode = None,
                              challenge = None, signature = None\<rparr>))))"

subsection \<open>GET /check-auth/:nonce\<close>

datatype check_response =
    StatusInvalid
  | StatusVerified "string option" "string option" "string option" "string option"
  | StatusPending

definition check_auth :: "string \<Rightarrow> store \<Rightarrow> check_response \<times> store" where
  "check_auth nonce s =
     (case s nonce of
        None \<Rightarrow> (StatusInvalid, s)
      | Some a \<Rightarrow>
          if verified a
          then (StatusVerified (nym a) (paymentCode a) (challenge a) (signature a), s)
          else (StatusPending, s))"

subsection \<open>POST /verify\<close>

text \<open>
  \<open>VerifyError code text\<close> is the JSON \<open>{result: 'error', error: text}\<close> sent with the
  HTTP status \<open>code\<close>; \<open>VerifyOk nym\<close> is \<open>{result: 'ok', nym, payment_code: nym}\<close>.
\<close>

datatype verify_response =
    VerifyError nat string
  | VerifyOk string

text \<open>\<^verbatim>\<open>challengeUrl.pathname.replace(/^\/\//, '')\<close>\<close>

definition strip_slashes :: "string \<Rightarrow> string" where
  "strip_slashes p = (if take 2 p = ''//'' then drop 2 p else p)"

text \<open>\<^verbatim>\<open>challengeUrl.hostname || challengeUrl.pathname.replace(/^\/\//, '')\<close>\<close>

definition extract_nonce :: "url \<Rightarrow> string" where
  "extract_nonce u = (if hostname u \<noteq> [] then hostname u else strip_slashes (pathname u))"

text \<open>The assignments of a successful redemption to the stored object.\<close>

definition mark_verified :: "auth \<Rightarrow> string \<Rightarrow> string \<Rightarrow> string \<Rightarrow> auth" where
  "mark_verified a n c sg =
     a\<lparr>verified := True, nym := Some n, paymentCode := Some n,
       challenge := Some c, signature := Some sg\<rparr>"

text \<open>\<open>now\<close> is the one reading of \<^verbatim>\<open>Date.now()\<close> the handler makes.\<close>

definition verify :: "platform \<Rightarrow> int \<Rightarrow> body \<Rightarrow> store \<Rightarrow> verify_response \<times> store" where
  "verify P now b s =
     (if falsy (body_challenge b) \<or> falsy (body_nym b) \<or> falsy (body_signature b)
      then (VerifyError 400 ''Missing required fields: challenge, nym, signature'', s)
      else
        let c = the (body_challenge b); n = the (body_nym b); sg = the (body_signature b)
        in case new_URL P c of
             None \<Rightarrow> (VerifyError 400 ''Invalid challenge format'', s)
           | Some challengeUrl \<Rightarrow>
               let nonce = extract_nonce challengeUrl;
                   challengeExpiry = searchParams_get P (search challengeUrl) ''e''
               in if falsy challengeExpiry
                  then (VerifyError 400 ''Missing expiry parameter in challenge'', s)
                  else
                    (case s nonce of
                      None \<Rightarrow> (VerifyError 400 ''Invalid or expired nonce'', s)
                    | Some a \<Rightarrow>
                        let currentTime = now div 1000;
                            expiryTime = parseInt P (the challengeExpiry)
                        in if (case expiryTime of None \<Rightarrow> False | Some t \<Rightarrow> t \<le> currentTime)
                           then (VerifyError 400 ''Challenge has expired'', s)
                           else if Some (expiry a) \<noteq> expiryTime
                           then (VerifyError 400 ''Expiry mismatch in challenge'', s)
                           else if verified a
                           then (VerifyError 400 ''Nonce already used'', s)
                           else
                             (case verifyProof P b of
                               ProofOk \<Rightarrow> (VerifyOk n, s(nonce \<mapsto> mark_verified a n c sg))
                             | ProofError err \<Rightarrow> (VerifyError 200 err, s)
                             | ProofThrows msg \<Rightarrow> (VerifyError 400 msg, s))))"

subsection \<open>POST /callback\<close>

text \<open>
  The callback answers with the page \<^verbatim>\<open>public/callback.html\<close> or with a redirect to
  \<^verbatim>\<open>/callback?nonce=...\<close>; the reason of a rejection is only written to the console.
  The model returns the console line of the branch taken (without its leading pictogram)
  beside the response.
\<close>

datatype callback_response =
    SendFile string
  | Redirect string

definition callback_html :: callback_response where
  "callback_html = SendFile ''public/callback.html''"

definition callback :: "platform \<Rightarrow> int \<Rightarrow> body \<Rightarrow> store \<Rightarrow> (callback_response \<times> string) \<times> store" where
  "callback P now b s =
     (if falsy (body_challenge b) \<or> falsy (body_nym b) \<or> falsy (body_signature b)
      then ((callback_html, ''Missing required fields in callback''), s)
      else
        let c = the (body_challenge b); n = the (body_nym b); sg = the (body_signature b)
        in case new_URL P c of
             None \<Rightarrow> ((callback_html, ''Invalid challenge format in callback: '' @ c), s)
           | Some challengeUrl \<Rightarrow>
               let nonce = extract_nonce challengeUrl;
                   challengeExpiry = searchParams_get P (search challengeUrl) ''e''
               in if falsy challengeExpiry
                  then ((callback_html, ''Missing expiry parameter in challenge''), s)
                  else
                    (case s nonce of
                      None \<Rightarrow> ((callback_html, ''Invalid or expired nonce in callback''), s)
                    | Some a \<Rightarrow>
                        let currentTime = now div 1000;
                            expiryTime = parseInt P (the challengeExpiry)
                        in if (case expiryTime of None \<Rightarrow> False | Some t \<Rightarrow> t \<le> currentTime)
                           then ((callback_html, ''Challenge has expired in callback''), s)
                           else if Some (expiry a) \<noteq> expiryTime
                           then ((callback_html, ''Expiry mismatch in callback''), s)
                           else if verified a
                           then ((callback_html, ''Nonce already used in callback''), s)
                           else
                             (case verifyProof P b of
                               ProofOk \<Rightarrow>
                                 ((Redirect (''/callback?nonce='' @ nonce),
                                   ''Authentication successful via callback for '' @ n),
                                  s(nonce \<mapsto> mark_verified a n c sg))
                             | ProofError err \<Rightarrow>
                                 ((Redirect (''/callback?nonce='' @ nonce),
                                   ''Callback verification failed: '' @ err), s)
                             | ProofThrows msg \<Rightarrow>
                                 ((callback_html, ''Callback verification error: '' @ msg), s))))"

subsection \<open>POST /api/guestbook/submit\<close>

text \<open>
  The body of a submission, the document written to the \<open>messages\<close> collection, and
  the outcome of the look-up at paynym.rs that decorates it: the request throws, answers
  with a status that is not ok, or answers with a name and the list of the codes' texts.
\<close>

record submit_body =
  sub_nonce :: "string option"
  sub_message :: "string option"
  sub_challenge :: "string option"
  sub_signature :: "string option"
  sub_nym :: "string option"

record message_doc =
  doc_paymentCode :: string
  doc_nymName :: string
  doc_nymAvatar :: "string option"
  doc_message :: string
  doc_signature :: string
  doc_verified :: bool
  doc_createdAt :: int
  doc_nonce :: string

datatype paynym_fetch = FetchThrows | FetchNotOk | FetchOk "string option" "string list"

datatype submit_response =
    SubmitError nat string
  | SubmitOk message_doc

text \<open>
  The handler suspends at the look-up and at \<^verbatim>\<open>insertOne\<close>, so its writes do not happen
  in one step with its check of the store. It is modelled by the response and the writes
  it issues, in program order; \<open>perform\<close> carries a write out on the collection and the
  store as they are at that moment.
\<close>

datatype effect = InsertOne message_doc | Delete string

fun perform :: "effect \<Rightarrow> message_doc list \<times> store \<Rightarrow> message_doc list \<times> store" where
  "perform (InsertOne d) (msgs, s) = (msgs @ [d], s)"
| "perform (Delete key) (msgs, s) = (msgs, s(key := None))"

fun perform_all :: "effect list \<Rightarrow> message_doc list \<times> store \<Rightarrow> message_doc list \<times> store" where
  "perform_all [] st = st"
| "perform_all (e # es) st = perform_all es (perform e st)"

definition paynym_name :: "paynym_fetch \<Rightarrow> string \<Rightarrow> string" where
  "paynym_name f n =
     (case f of
        FetchOk nymName codes \<Rightarrow> if falsy nymName then n else the nymName
      | _ \<Rightarrow> n)"

definition paynym_avatar :: "paynym_fetch \<Rightarrow> string option" where
  "paynym_avatar f =
     (case f of
        FetchOk nymName codes \<Rightarrow>
          (case codes of
             [] \<Rightarrow> None
           | primaryCode # _ \<Rightarrow>
               if primaryCode = [] then None
               else Some (''https://paynym.rs/'' @ primaryCode @ ''/avatar''))
      | _ \<Rightarrow> None)"

text \<open>
  \<open>db_up\<close> tells whether the database connection was established (the variable \<open>db\<close>
  is set), \<open>f\<close> is the outcome of the look-up, \<open>insert_ok\<close> is false when
  \<^verbatim>\<open>insertOne\<close> throws, \<open>created\<close> is the time put into the document.
\<close>

definition guestbook_submit ::
  "bool \<Rightarrow> paynym_fetch \<Rightarrow> bool \<Rightarrow> int \<Rightarrow> submit_body \<Rightarrow> store \<Rightarrow> submit_response \<times> effect list" where
  "guestbook_submit db_up f insert_ok created b s =
     (if falsy (sub_nonce b) \<or> falsy (sub_message b) \<or> falsy (sub_challenge b)
         \<or> falsy (sub_signature b) \<or> falsy (sub_nym b)
      then (SubmitError 400
              ''Missing required fields: nonce, message, challenge, signature, nym'', [])
      else if \<not> db_up
      then (SubmitError 503 ''Database not available'', [])
      else
        let nonce = the (sub_nonce b); n = the (sub_nym b)
        in if (case s nonce of
                 None \<Rightarrow> True
               | Some a \<Rightarrow> \<not> verified a \<or> paymentCode a \<noteq> Some n)
           then (SubmitError 401 ''Invalid or expired authentication'', [])
           else
             let messageDoc =
                   \<lparr>doc_paymentCode = n, doc_nymName = paynym_name f n,
                    doc_nymAvatar = paynym_avatar f, doc_message = the (sub_message b),
                    doc_signature = the (sub_signature b), doc_verified = True,
                    doc_createdAt = created, doc_nonce = nonce\<rparr>
             in if \<not> insert_ok
                then (SubmitError 500 ''Failed to submit message'', [])
                else (SubmitOk messageDoc, [InsertOne messageDoc, Delete nonce]))"

subsection \<open>POST /api/bip47/validate\<close>

record checks =
  chk_format :: bool
  chk_length :: bool
  chk_base58 :: bool
  chk_checksum :: bool
  chk_version :: bool

datatype validate_response =
    ValidateError nat string
  | ValidateJson bool checks "(string \<times> string \<times> string) option"

text \<open>The character class \<^verbatim>\<open>[1-9A-HJ-NP-Za-km-z]\<close>.\<close>

definition base58_char :: "char \<Rightarrow> bool" where
  "base58_char c =
     ((CHR ''1'' \<le> c \<and> c \<le> CHR ''9'') \<or> (CHR ''A'' \<le> c \<and> c \<le> CHR ''H'')
      \<or> (CHR ''J'' \<le> c \<and> c \<le> CHR ''N'') \<or> (CHR ''P'' \<le> c \<and> c \<le> CHR ''Z'')
      \<or> (CHR ''a'' \<le> c \<and> c \<le> CHR ''k'') \<or> (CHR ''m'' \<le> c \<and> c \<le> CHR ''z''))"

text \<open>\<^verbatim>\<open>/^[1-9A-HJ-NP-Za-km-z]+$/.test(paymentCode)\<close>\<close>

definition base58_test :: "string \<Rightarrow> bool" where
  "base58_test pc = (pc \<noteq> [] \<and> list_all base58_char pc)"

definition startsWith :: "string \<Rightarrow> string \<Rightarrow> bool" where
  "startsWith s p = (take (length p) s = p)"

definition validate_details :: "string \<times> string \<times> string" where
  "validate_details =
     (''BIP47 Payment Code v1'', ''Reusable payment codes for stealth addresses'',
      ''Always verify payment codes before use'')"

definition bip47_validate :: "platform \<Rightarrow> string option \<Rightarrow> validate_response" where
  "bip47_validate P code =
     (if falsy code then ValidateError 400 ''Payment code required''
      else
        let pc = the code;
            parsed = fromBase58 P pc;
            chks = \<lparr>chk_format = startsWith pc ''PM8T'', chk_length = (length pc = 80),
                    chk_base58 = base58_test pc, chk_checksum = parsed,
                    chk_version = parsed\<rparr>;
            isValid = (chk_format chks \<and> chk_length chks \<and> chk_base58 chks
                       \<and> chk_checksum chks \<and> chk_version chks)
        in ValidateJson isValid chks (if isValid then Some validate_details else None))"

text \<open>The field \<open>valid\<close> of a response, absent from an error response.\<close>

definition valid_field :: "validate_response \<Rightarrow> bool option" where
  "valid_field r = (case r of ValidateError _ _ \<Rightarrow> None | ValidateJson v _ _ \<Rightarrow> Some v)"

subsection \<open>The operations on the store\<close>

text \<open>
  One operation of the system and the store it leaves. A guestbook submission acts on
  the store through the writes it issues.
\<close>

datatype operation =
    Issue string int int
  | Poll string
  | RedeemDirect int body
  | RedeemCallback int body
  | Submit bool paynym_fetch bool int submit_body

fun after :: "platform \<Rightarrow> operation \<Rightarrow> store \<Rightarrow> store" where
  "after P (Issue nonce now0 now1) s = snd (start_auth P nonce now0 now1 s)"
| "after P (Poll nonce) s = snd (check_auth nonce s)"
| "after P (RedeemDirect now b) s = snd (verify P now b s)"
| "after P (RedeemCallback now b) s = snd (callback P now b s)"
| "after P (Submit db_up f insert_ok created b) s =
     snd (perform_all (snd (guestbook_submit db_up f insert_ok created b s)) ([], s))"

section \<open>Vocabulary of the statements\<close>

text \<open>
  \<open>proof_fields b c n sg\<close>: the body \<open>b\<close> carries the challenge \<open>c\<close>, the identity
  \<open>n\<close> and the signature \<open>sg\<close>, none of them empty (the presence check passes).
\<close>

definition proof_fields :: "body \<Rightarrow> string \<Rightarrow> string \<Rightarrow> string \<Rightarrow> bool" where
  "proof_fields b c n sg =
     (body_challenge b = Some c \<and> c \<noteq> [] \<and> body_nym b = Some n \<and> n \<noteq> []
      \<and> body_signature b = Some sg \<and> sg \<noteq> [])"

text \<open>
  \<open>parsed P c nonce e\<close>: the parse step succeeds on the challenge \<open>c\<close> and extracts
  the nonce \<open>nonce\<close> and the non-empty expiry text \<open>e\<close>.
\<close>

definition parsed :: "platform \<Rightarrow> string \<Rightarrow> string \<Rightarrow> string \<Rightarrow> bool" where
  "parsed P c nonce e =
     (case new_URL P c of
        None \<Rightarrow> False
      | Some u \<Rightarrow> extract_nonce u = nonce \<and> searchParams_get P (search u) ''e'' = Some e
                  \<and> e \<noteq> [])"

text \<open>\<open>fresh P e now\<close>: the expiry text \<open>e\<close> passes the freshness check at \<open>now\<close>.\<close>

definition fresh :: "platform \<Rightarrow> string \<Rightarrow> int \<Rightarrow> bool" where
  "fresh P e now = (case parseInt P e of None \<Rightarrow> True | Some t \<Rightarrow> now div 1000 < t)"

text \<open>
  \<open>draws_fresh op s\<close>: an issuance draws a nonce that is not a key of the store, the
  way a step that generates a nonce is modelled in protocol verification: the 16 random
  bytes do not collide with a live nonce. It holds of every other operation.
  \<open>may_delete op k a\<close>: the operation is one that may remove the record \<open>a\<close> stored
  under \<open>k\<close>: an issuance whose sweep finds it older than 300000 ms, or a guestbook
  submission for the nonce \<open>k\<close>.
\<close>

fun draws_fresh :: "operation \<Rightarrow> store \<Rightarrow> bool" where
  "draws_fresh (Issue nonce now0 now1) s = (s nonce = None)"
| "draws_fresh _ s = True"

fun may_delete :: "operation \<Rightarrow> string \<Rightarrow> auth \<Rightarrow> bool" where
  "may_delete (Issue nonce now0 now1) k a = (now1 - timestamp a > 300000)"
| "may_delete (Submit db_up f insert_ok created b) k a = (sub_nonce b = Some k)"
| "may_delete _ k a = False"

text \<open>The record an issuance stores.\<close>

definition fresh_record :: "int \<Rightarrow> int \<Rightarrow> auth" where
  "fresh_record stamp e =
     \<lparr>timestamp = stamp, verified = False, expiry = e, nym = None, paymentCode = None,
      challenge = None, signature = None\<rparr>"

text \<open>
  The alphabet of the client-side validator (\<^verbatim>\<open>BASE58_ALPHABET\<close> in
  validator-script.js).
\<close>

definition BASE58_ALPHABET :: string where
  "BASE58_ALPHABET = ''123456789ABCDEFGHJKLMNPQRSTUVWXYZabcdefghijkmnopqrstuvwxyz''"

text \<open>
  \<open>authenticated s nonce n\<close>: the store holds under \<open>nonce\<close> a verified record whose
  \<open>paymentCode\<close> is \<open>n\<close>. \<open>fields_present b\<close>: the submission carries all of its five
  fields, none of them empty.
\<close>

definition authenticated :: "store \<Rightarrow> string \<Rightarrow> string \<Rightarrow> bool" where
  "authenticated s nonce n =
     (case s nonce of None \<Rightarrow> False | Some a \<Rightarrow> verified a \<and> paymentCode a = Some n)"

definition fields_present :: "submit_body \<Rightarrow> bool" where
  "fields_present b =
     (\<not> falsy (sub_nonce b) \<and> \<not> falsy (sub_message b) \<and> \<not> falsy (sub_challenge b)
      \<and> \<not> falsy (sub_signature b) \<and> \<not> falsy (sub_nym b))"

section \<open>Concrete runs\<close>

subsection \<open>A platform to run the handlers on\<close>

text \<open>
  The examples below run the handlers on concrete requests. They use a small executable
  platform that agrees with Node on the strings they submit: challenge strings
  \<^verbatim>\<open>scheme://host?query\<close> with a plain host (no credentials, port, path or
  fragment), query parameters without percent-encoding, and expiries of a few decimal
  digits. Its verifier accepts exactly the proofs whose signature is \<^verbatim>\<open>good\<close>.
\<close>

fun split_on :: "char \<Rightarrow> string \<Rightarrow> string list" where
  "split_on d [] = [[]]"
| "split_on d (c # cs) =
     (if c = d then [] # split_on d cs
      else (case split_on d cs of [] \<Rightarrow> [[c]] | w # ws \<Rightarrow> (c # w) # ws))"

definition is_alpha :: "char \<Rightarrow> bool" where
  "is_alpha c = ((CHR ''a'' \<le> c \<and> c \<le> CHR ''z'') \<or> (CHR ''A'' \<le> c \<and> c \<le> CHR ''Z''))"

definition is_digit :: "char \<Rightarrow> bool" where
  "is_digit c = (CHR ''0'' \<le> c \<and> c \<le> CHR ''9'')"

definition simple_URL :: "string \<Rightarrow> url option" where
  "simple_URL c =
     (let scheme = takeWhile (\<lambda>x. x \<noteq> CHR '':'') c;
          rest = drop (length scheme + 1) c
      in if scheme = [] \<or> length scheme = length c \<or> \<not> is_alpha (hd scheme)
            \<or> \<not> list_all (\<lambda>x. is_alpha x \<or> is_digit x) scheme
            \<or> take 2 rest \<noteq> ''//''
         then None
         else
           let host = takeWhile (\<lambda>x. x \<noteq> CHR ''?'') (drop 2 rest);
               query = drop (length host) (drop 2 rest)
           in Some \<lparr>hostname = host, pathname = [],
                    search = (if query = ''?'' then [] else query)\<rparr>)"

fun lookup_param :: "string \<Rightarrow> string list \<Rightarrow> string option" where
  "lookup_param name [] = None"
| "lookup_param name (kv # kvs) =
     (if takeWhile (\<lambda>x. x \<noteq> CHR ''='') kv = name
      then Some (drop (length name + 1) kv)
      else lookup_param name kvs)"

definition simple_get :: "string \<Rightarrow> string \<Rightarrow> string option" where
  "simple_get q name =
     (let q' = (if take 1 q = ''?'' then drop 1 q else q)
      in if q' = [] then None else lookup_param name (split_on CHR ''&'' q'))"

definition digits_value :: "string \<Rightarrow> int" where
  "digits_value ds = foldl (\<lambda>acc c. 10 * acc + (int (of_char c) - 48)) 0 ds"

definition simple_parseInt :: "string \<Rightarrow> int option" where
  "simple_parseInt str =
     (let body = dropWhile (\<lambda>x. x = CHR '' '') str;
          neg = (take 1 body = ''-'');
          unsigned = (if take 1 body = ''-'' \<or> take 1 body = ''+'' then drop 1 body else body);
          ds = takeWhile is_digit unsigned
      in if ds = [] then None
         else Some (if neg then - digits_value ds else digits_value ds))"

definition simple_platform :: platform where
  "simple_platform =
     \<lparr>new_URL = simple_URL,
      searchParams_get = simple_get,
      parseInt = simple_parseInt,
      verifyProof = (\<lambda>b. if body_signature b = Some ''good'' then ProofOk
                          else ProofError ''invalid signature''),
      toDataURL = (\<lambda>uri. Inr (''data:image/png;base64,'' @ uri)),
      fromBase58 = (\<lambda>pc. length pc = 116),
      CALLBACK_URL = ''http://localhost:3000/callback''\<rparr>"

subsection \<open>A run of the lifecycle\<close>

text \<open>
  The scenario of the examples: a challenge issued at time 0 (so that it expires at
  second 300) into an empty store, and the proof a wallet returns for it.
\<close>

definition nonce0 :: string where
  "nonce0 = ''3f9a1c0e5b7d2a4866f0e1d2c3b4a5f6''"

definition challenge0 :: string where
  "challenge0 =
     ''auth47://3f9a1c0e5b7d2a4866f0e1d2c3b4a5f6?c=http://localhost:3000/callback&e=300''"

definition nym0 :: string where
  "nym0 = ''PM8TJTLJbPRGxSbc8EJi42Wrr6QbNSaSSVJ5Y3E4pbCYiTHUskHg13935Ubb7q8tx9GVbh2UuRnBc3WSyJHhUrw8KhprKnn9eDznYGieTzFcwQRya4GA''"

definition proof0 :: body where
  "proof0 = \<lparr>auth47_response = None, body_challenge = Some challenge0,
             body_nym = Some nym0, body_signature = Some ''good''\<rparr>"

definition record0 :: auth where
  "record0 = \<lparr>timestamp = 0, verified = False, expiry = 300, nym = None,
              paymentCode = None, challenge = None, signature = None\<rparr>"

text \<open>The store after the issuance, and after the redemption of \<open>proof0\<close> at second 290.\<close>

definition store0 :: store where
  "store0 = snd (start_auth simple_platform nonce0 0 0 Map.empty)"

definition store1 :: store where
  "store1 = snd (verify simple_platform 290000 proof0 store0)"

text \<open>
  The same proof with another challenge string: the expiry parameter altered to a
  second in the past, altered to a later second, and left out.
\<close>

definition challenge_past :: string where
  "challenge_past =
     ''auth47://3f9a1c0e5b7d2a4866f0e1d2c3b4a5f6?c=http://localhost:3000/callback&e=200''"

definition challenge_future :: string where
  "challenge_future =
     ''auth47://3f9a1c0e5b7d2a4866f0e1d2c3b4a5f6?c=http://localhost:3000/callback&e=400''"

definition challenge_noexpiry :: string where
  "challenge_noexpiry =
     ''auth47://3f9a1c0e5b7d2a4866f0e1d2c3b4a5f6?c=http://localhost:3000/callback''"

definition with_challenge :: "string \<Rightarrow> body" where
  "with_challenge c = proof0\<lparr>body_challenge := Some c\<rparr>"

text \<open>The proof without its signature, and with a signature the verifier rejects.\<close>

definition proof_unsigned :: body where
  "proof_unsigned = proof0\<lparr>body_signature := None\<rparr>"

definition proof_forged :: body where
  "proof_forged = proof0\<lparr>body_signature := Some ''bad''\<rparr>"

text \<open>
  A second nonce, a guestbook submission for the first one, and the record of the first
  nonce once it is verified.
\<close>

definition other_nonce :: string where
  "other_nonce = ''0b1c2d3e4f5061728394a5b6c7d8e9fa''"

definition submission0 :: submit_body where
  "submission0 = \<lparr>sub_nonce = Some nonce0, sub_message = Some ''hello'',
                  sub_challenge = Some challenge0, sub_signature = Some ''good'',
                  sub_nym = Some nym0\<rparr>"

definition record1 :: auth where
  "record1 = mark_verified record0 nym0 challenge0 ''good''"

text \<open>A platform whose QR encoder throws.\<close>

definition broken_encoder :: platform where
  "broken_encoder = simple_platform\<lparr>toDataURL := (\<lambda>uri. Inl ''encoder failed'')\<rparr>"

text \<open>The document the submission of the run writes.\<close>

definition doc0 :: message_doc where
  "doc0 = \<lparr>doc_paymentCode = nym0, doc_nymName = nym0, doc_nymAvatar = None,
            doc_message = ''hello'', doc_signature = ''good'', doc_verified = True,
            doc_createdAt = 292000, doc_nonce = nonce0\<rparr>"

text \<open>
  A string of 111 Base58 characters and one of 80, both with the prefix \<^verbatim>\<open>PM8T\<close>, and
  a platform whose payment-code parser accepts every string.
\<close>

definition code111 :: string where
  "code111 = ''PM8TP5UcWdNHZRSg3sTj271HsXob1uzMdUFGaZPVG3cQnmPfNcdqDGsvo39N7QeRZbuH7ixyFmwNEXp8rTfPkxKyrtGtcHPbd3XLdrSHoatFf8h''"

definition code80 :: string where
  "code80 = ''PM8TvERYHfcAV1Bchtq65JZugbXstUQq3fHzifakXnhtMv2dGEPUxmCCXD979osdPaS7JV1i8T5Q2H39''"

definition accepting :: platform where
  "accepting = simple_platform\<lparr>fromBase58 := (\<lambda>pc. True)\<rparr>"

section \<open>Properties\<close>

subsection \<open>The steps of POST /verify\<close>

lemma verify_missing:
  "falsy (body_challenge b) \<or> falsy (body_nym b) \<or> falsy (body_signature b) \<Longrightarrow>
   verify P now b s =
     (VerifyError 400 ''Missing required fields: challenge, nym, signature'', s)"
  by (simp add: verify_def)

lemma verify_invalid_format:
  "proof_fields b c n sg \<Longrightarrow> new_URL P c = None \<Longrightarrow>
   verify P now b s = (VerifyError 400 ''Invalid challenge format'', s)"
  by (simp add: verify_def proof_fields_def falsy_def)

lemma verify_missing_expiry:
  "proof_fields b c n sg \<Longrightarrow> new_URL P c = Some u \<Longrightarrow>
   falsy (searchParams_get P (search u) ''e'') \<Longrightarrow>
   verify P now b s = (VerifyError 400 ''Missing expiry parameter in challenge'', s)"
  by (simp add: verify_def proof_fields_def falsy_def)

lemma verify_unknown_nonce:
  "proof_fields b c n sg \<Longrightarrow> parsed P c nonce e \<Longrightarrow> s nonce = None \<Longrightarrow>
   verify P now b s = (VerifyError 400 ''Invalid or expired nonce'', s)"
  by (auto simp add: verify_def proof_fields_def parsed_def falsy_def Let_def
      split: option.splits)

lemma verify_expired:
  "proof_fields b c n sg \<Longrightarrow> parsed P c nonce e \<Longrightarrow> s nonce = Some a \<Longrightarrow>
   parseInt P e = Some t \<Longrightarrow> t \<le> now div 1000 \<Longrightarrow>
   verify P now b s = (VerifyError 400 ''Challenge has expired'', s)"
  by (auto simp add: verify_def proof_fields_def parsed_def falsy_def Let_def
      split: option.splits)

lemma verify_mismatch:
  "proof_fields b c n sg \<Longrightarrow> parsed P c nonce e \<Longrightarrow> s nonce = Some a \<Longrightarrow>
   fresh P e now \<Longrightarrow> parseInt P e \<noteq> Some (expiry a) \<Longrightarrow>
   verify P now b s = (VerifyError 400 ''Expiry mismatch in challenge'', s)"
  by (auto simp add: verify_def proof_fields_def parsed_def falsy_def fresh_def Let_def
      split: option.splits)

lemma verify_used:
  "proof_fields b c n sg \<Longrightarrow> parsed P c nonce e \<Longrightarrow> s nonce = Some a \<Longrightarrow>
   fresh P e now \<Longrightarrow> parseInt P e = Some (expiry a) \<Longrightarrow> verified a \<Longrightarrow>
   verify P now b s = (VerifyError 400 ''Nonce already used'', s)"
  by (auto simp add: verify_def proof_fields_def parsed_def falsy_def fresh_def Let_def
      split: option.splits)

lemma verify_signature:
  "proof_fields b c n sg \<Longrightarrow> parsed P c nonce e \<Longrightarrow> s nonce = Some a \<Longrightarrow>
   fresh P e now \<Longrightarrow> parseInt P e = Some (expiry a) \<Longrightarrow> \<not> verified a \<Longrightarrow>
   verify P now b s =
     (case verifyProof P b of
        ProofOk \<Rightarrow> (VerifyOk n, s(nonce \<mapsto> mark_verified a n c sg))
      | ProofError err \<Rightarrow> (VerifyError 200 err, s)
      | ProofThrows msg \<Rightarrow> (VerifyError 400 msg, s))"
  by (auto simp add: verify_def proof_fields_def parsed_def falsy_def fresh_def Let_def
      split: option.splits)

subsection \<open>The steps of POST /callback\<close>

lemma callback_missing:
  "falsy (body_challenge b) \<or> falsy (body_nym b) \<or> falsy (body_signature b) \<Longrightarrow>
   callback P now b s = ((callback_html, ''Missing required fields in callback''), s)"
  by (simp add: callback_def)

lemma callback_invalid_format:
  "proof_fields b c n sg \<Longrightarrow> new_URL P c = None \<Longrightarrow>
   callback P now b s =
     ((callback_html, ''Invalid challenge format in callback: '' @ c), s)"
  by (simp add: callback_def proof_fields_def falsy_def)

lemma callback_missing_expiry:
  "proof_fields b c n sg \<Longrightarrow> new_URL P c = Some u \<Longrightarrow>
   falsy (searchParams_get P (search u) ''e'') \<Longrightarrow>
   callback P now b s = ((callback_html, ''Missing expiry parameter in challenge''), s)"
  by (simp add: callback_def proof_fields_def falsy_def)

lemma callback_unknown_nonce:
  "proof_fields b c n sg \<Longrightarrow> parsed P c nonce e \<Longrightarrow> s nonce = None \<Longrightarrow>
   callback P now b s = ((callback_html, ''Invalid or expired nonce in callback''), s)"
  by (auto simp add: callback_def proof_fields_def parsed_def falsy_def Let_def
      split: option.splits)

lemma callback_expired:
  "proof_fields b c n sg \<Longrightarrow> parsed P c nonce e \<Longrightarrow> s nonce = Some a \<Longrightarrow>
   parseInt P e = Some t \<Longrightarrow> t \<le> now div 1000 \<Longrightarrow>
   callback P now b s = ((callback_html, ''Challenge has expired in callback''), s)"
  by (auto simp add: callback_def proof_fields_def parsed_def falsy_def Let_def
      split: option.splits)

lemma callback_mismatch:
  "proof_fields b c n sg \<Longrightarrow> parsed P c nonce e \<Longrightarrow> s nonce = Some a \<Longrightarrow>
   fresh P e now \<Longrightarrow> parseInt P e \<noteq> Some (expiry a) \<Longrightarrow>
   callback P now b s = ((callback_html, ''Expiry mismatch in callback''), s)"
  by (auto simp add: callback_def proof_fields_def parsed_def falsy_def fresh_def Let_def
      split: option.splits)

lemma callback_used:
  "proof_fields b c n sg \<Longrightarrow> parsed P c nonce e \<Longrightarrow> s nonce = Some a \<Longrightarrow>
   fresh P e now \<Longrightarrow> parseInt P e = Some (expiry a) \<Longrightarrow> verified a \<Longrightarrow>
   callback P now b s = ((callback_html, ''Nonce already used in callback''), s)"
  by (auto simp add: callback_def proof_fields_def parsed_def falsy_def fresh_def Let_def
      split: option.splits)

lemma callback_signature:
  "proof_fields b c n sg \<Longrightarrow> parsed P c nonce e \<Longrightarrow> s nonce = Some a \<Longrightarrow>
   fresh P e now \<Longrightarrow> parseInt P e = Some (expiry a) \<Longrightarrow> \<not> verified a \<Longrightarrow>
   callback P now b s =
     (case verifyProof P b of
        ProofOk \<Rightarrow>
          ((Redirect (''/callback?nonce='' @ nonce),
            ''Authentication successful via callback for '' @ n),
           s(nonce \<mapsto> mark_verified a n c sg))
      | ProofError err \<Rightarrow>
          ((Redirect (''/callback?nonce='' @ nonce), ''Callback verification failed: '' @ err),
           s)
      | ProofThrows msg \<Rightarrow>
          ((callback_html, ''Callback verification error: '' @ msg), s))"
  by (auto simp add: callback_def proof_fields_def parsed_def falsy_def fresh_def Let_def
      split: option.splits)

subsection \<open>The verifier is consulted last\<close>

lemma parsed_verifier [simp]:
  "parsed (P\<lparr>verifyProof := vp\<rparr>) c nonce e = parsed P c nonce e"
  by (simp add: parsed_def split: option.splits)

lemma fresh_verifier [simp]: "fresh (P\<lparr>verifyProof := vp\<rparr>) e now = fresh P e now"
  by (simp add: fresh_def)

lemma same_verifier [simp]: "P\<lparr>verifyProof := verifyProof P\<rparr> = P"
  by simp

subsection \<open>The sweep\<close>

lemma sweep_upd:
  "sweep now (s(k \<mapsto> v)) =
     (sweep now s)(k := (if now - timestamp v > 300000 then None else Some v))"
  by (auto simp add: sweep_def fun_eq_iff)

lemma sweep_empty: "sweep now Map.empty = Map.empty"
  by (simp add: sweep_def fun_eq_iff)

subsection \<open>What the operations leave of a verified record\<close>

lemma verify_keeps_verified:
  "s k = Some a \<Longrightarrow> verified a \<Longrightarrow> snd (verify P now b s) k = Some a"
  by (auto simp add: verify_def Let_def split: option.splits proof_result.splits)

lemma callback_keeps_verified:
  "s k = Some a \<Longrightarrow> verified a \<Longrightarrow> snd (callback P now b s) k = Some a"
  by (auto simp add: callback_def Let_def split: option.splits proof_result.splits)

lemma check_auth_keeps: "snd (check_auth nonce s) = s"
  by (simp add: check_auth_def split: option.splits)

lemma start_auth_keeps_verified:
  "s k = Some a \<Longrightarrow> s nonce = None \<Longrightarrow>
   snd (start_auth P nonce now0 now1 s) k = Some a
   \<or> (snd (start_auth P nonce now0 now1 s) k = None \<and> now1 - timestamp a > 300000)"
  by (auto simp add: start_auth_def Let_def sweep_def split: sum.splits)

lemma guestbook_effects:
  "snd (guestbook_submit db_up f insert_ok created b s) = [] \<or>
   (\<exists>d nonce. sub_nonce b = Some nonce \<and>
      snd (guestbook_submit db_up f insert_ok created b s) = [InsertOne d, Delete nonce])"
  by (auto simp add: guestbook_submit_def Let_def falsy_def split: option.splits)

lemma submit_keeps_verified:
  "s k = Some a \<Longrightarrow>
   after P (Submit db_up f insert_ok created b) s k =
     (if after P (Submit db_up f insert_ok created b) s k = None then None else Some a)
   \<and> (after P (Submit db_up f insert_ok created b) s k = None \<longrightarrow> sub_nonce b = Some k)"
  using guestbook_effects [of db_up f insert_ok created b s]
  by (auto split: if_splits)

subsection \<open>What a successful redemption commits\<close>

lemma verify_ok_commits:
  "verify P now b s = (VerifyOk n, s') \<Longrightarrow>
   \<exists>c u a sg. body_challenge b = Some c \<and> body_nym b = Some n \<and> body_signature b = Some sg
      \<and> new_URL P c = Some u \<and> s (extract_nonce u) = Some a
      \<and> s' = s(extract_nonce u \<mapsto> mark_verified a n c sg)"
  by (auto simp add: verify_def Let_def falsy_def
      split: if_splits option.splits proof_result.splits)

lemma callback_ok_commits:
  "callback P now b s = ((r, ''Authentication successful via callback for '' @ n), s') \<Longrightarrow>
   \<exists>c u a sg. body_challenge b = Some c \<and> body_nym b = Some n \<and> body_signature b = Some sg
      \<and> new_URL P c = Some u \<and> s (extract_nonce u) = Some a
      \<and> s' = s(extract_nonce u \<mapsto> mark_verified a n c sg)"
  by (auto simp add: callback_def Let_def falsy_def callback_html_def
      split: if_splits option.splits proof_result.splits)

subsection \<open>The outcomes of a guestbook submission\<close>

lemma guestbook_cases:
  "guestbook_submit db_up f insert_ok created b s = (resp, effs) \<Longrightarrow>
   (effs = [] \<and> (\<forall>d. resp \<noteq> SubmitOk d))
   \<or> (\<exists>a d. insert_ok \<and> resp = SubmitOk d \<and> effs = [InsertOne d, Delete (doc_nonce d)]
        \<and> sub_nonce b = Some (doc_nonce d) \<and> sub_nym b = Some (doc_paymentCode d)
        \<and> s (doc_nonce d) = Some a \<and> verified a
        \<and> paymentCode a = Some (doc_paymentCode d))"
  by (auto simp add: guestbook_submit_def Let_def falsy_def
      split: if_splits option.splits)

lemma guestbook_success:
  "guestbook_submit db_up f insert_ok created b s = (SubmitOk d, effs) \<Longrightarrow>
   sub_nonce b = Some (doc_nonce d) \<and> sub_nym b = Some (doc_paymentCode d)
   \<and> authenticated s (doc_nonce d) (doc_paymentCode d) \<and> fields_present b \<and> db_up \<and> insert_ok
   \<and> effs = [InsertOne d, Delete (doc_nonce d)]"
  by (auto simp add: guestbook_submit_def Let_def falsy_def authenticated_def fields_present_def
      split: if_splits option.splits)

lemma guestbook_unauthenticated:
  "fields_present b \<Longrightarrow> db_up \<Longrightarrow> sub_nonce b = Some nonce \<Longrightarrow> sub_nym b = Some n \<Longrightarrow>
   \<not> authenticated s nonce n \<Longrightarrow>
   guestbook_submit db_up f insert_ok created b s =
     (SubmitError 401 ''Invalid or expired authentication'', [])"
  by (auto simp add: guestbook_submit_def Let_def authenticated_def fields_present_def
      split: option.splits)

lemma guestbook_rejected:
  "sub_nonce b = Some nonce \<Longrightarrow> sub_nym b = Some n \<Longrightarrow> \<not> authenticated s nonce n \<Longrightarrow>
   guestbook_submit db_up f insert_ok created b s = (resp, effs) \<Longrightarrow>
   (\<exists>code msg. resp = SubmitError code msg) \<and> effs = []"
  by (auto simp add: guestbook_submit_def Let_def authenticated_def
      split: if_splits option.splits)

subsection \<open>The checks of the validator\<close>

lemma base58_char_alphabet: "base58_char c \<longleftrightarrow> c \<in> set BASE58_ALPHABET"
proof -
  define n :: nat where "n = of_char c"
  have e: "c = d \<longleftrightarrow> n = of_char d" for d
    by (simp add: n_def)
  have l: "d \<le> c \<longleftrightarrow> of_char d \<le> n" "c \<le> d \<longleftrightarrow> n \<le> of_char d" for d
    by (simp_all only: less_eq_char_def n_def)
  show ?thesis
    unfolding base58_char_def BASE58_ALPHABET_def l
    by (simp add: e) arith
qed

lemma startsWith_prefix: "startsWith s p \<longleftrightarrow> (\<exists>r. s = p @ r)"
  unfolding startsWith_def
  by (metis append_eq_conv_conj append_take_drop_id)

lemma base58_test_alphabet:
  "base58_test pc \<longleftrightarrow> pc \<noteq> [] \<and> set pc \<subseteq> set BASE58_ALPHABET"
  by (auto simp add: base58_test_def list_all_iff base58_char_alphabet)

subsection \<open>Facts of the run\<close>

lemma challenge0_issued: "challenge_uri simple_platform nonce0 300 = challenge0"
  by (simp add: challenge_uri_def simple_platform_def number_toString_def nonce0_def
      challenge0_def decimal_nat.simps digit_char_def)

lemma store0_eq: "store0 = [nonce0 \<mapsto> record0]"
  by (simp add: store0_def start_auth_def Let_def sweep_upd sweep_empty record0_def
      simple_platform_def)

lemma proof0_fields: "proof_fields proof0 challenge0 nym0 ''good''"
  by (simp add: proof_fields_def proof0_def challenge0_def nym0_def)

lemma challenge0_parsed: "parsed simple_platform challenge0 nonce0 ''300''"
  by (simp add: parsed_def simple_platform_def simple_URL_def simple_get_def challenge0_def
      nonce0_def extract_nonce_def is_alpha_def is_digit_def)

lemma parseInt_300: "parseInt simple_platform ''300'' = Some 300"
  by (simp add: simple_platform_def simple_parseInt_def is_digit_def digits_value_def)

lemma fresh_300: "now < 300000 \<Longrightarrow> fresh simple_platform ''300'' now"
  by (simp add: fresh_def parseInt_300)

lemma proof0_good: "verifyProof simple_platform proof0 = ProofOk"
  by (simp add: simple_platform_def proof0_def)

lemma verify_proof0:
  "verify simple_platform 290000 proof0 store0 =
     (VerifyOk nym0, [nonce0 \<mapsto> mark_verified record0 nym0 challenge0 ''good''])"
  using verify_signature [OF proof0_fields challenge0_parsed, of store0 record0 290000]
  by (simp add: store0_eq fresh_300 parseInt_300 record0_def proof0_good)

lemma store1_eq: "store1 = [nonce0 \<mapsto> mark_verified record0 nym0 challenge0 ''good'']"
  by (simp add: store1_def verify_proof0)

lemma with_challenge_fields: "c \<noteq> [] \<Longrightarrow> proof_fields (with_challenge c) c nym0 ''good''"
  by (simp add: with_challenge_def proof_fields_def proof0_def nym0_def)

lemma challenge_past_parsed: "parsed simple_platform challenge_past nonce0 ''200''"
  by (simp add: parsed_def simple_platform_def simple_URL_def simple_get_def challenge_past_def
      nonce0_def extract_nonce_def is_alpha_def is_digit_def)

lemma challenge_future_parsed: "parsed simple_platform challenge_future nonce0 ''400''"
  by (simp add: parsed_def simple_platform_def simple_URL_def simple_get_def
      challenge_future_def nonce0_def extract_nonce_def is_alpha_def is_digit_def)

lemma parseInt_200: "parseInt simple_platform ''200'' = Some 200"
  by (simp add: simple_platform_def simple_parseInt_def is_digit_def digits_value_def)

lemma parseInt_400: "parseInt simple_platform ''400'' = Some 400"
  by (simp add: simple_platform_def simple_parseInt_def is_digit_def digits_value_def)

lemma proof_forged_fields: "proof_fields proof_forged challenge0 nym0 ''bad''"
  by (simp add: proof_forged_def proof_fields_def proof0_def challenge0_def nym0_def)

lemma proof_forged_bad: "verifyProof simple_platform proof_forged = ProofError ''invalid signature''"
  by (simp add: simple_platform_def proof_forged_def proof0_def)

lemma not_a_url: "new_URL simple_platform ''not a url'' = None"
  by (simp add: simple_platform_def simple_URL_def)

lemma challenge_noexpiry_url:
  "new_URL simple_platform challenge_noexpiry =
     Some \<lparr>hostname = nonce0, pathname = [], search = ''?c=http://localhost:3000/callback''\<rparr>"
  by (simp add: simple_platform_def simple_URL_def challenge_noexpiry_def nonce0_def
      is_alpha_def is_digit_def)

lemma challenge_noexpiry_get:
  "falsy (searchParams_get simple_platform ''?c=http://localhost:3000/callback'' ''e'')"
  by (simp add: simple_platform_def simple_get_def falsy_def)

lemma nourl_fields: "proof_fields (with_challenge ''not a url'') ''not a url'' nym0 ''good''"
  by (rule with_challenge_fields) simp

lemma noexpiry_fields:
  "proof_fields (with_challenge challenge_noexpiry) challenge_noexpiry nym0 ''good''"
  by (rule with_challenge_fields) (simp add: challenge_noexpiry_def)

lemma future_fields:
  "proof_fields (with_challenge challenge_future) challenge_future nym0 ''good''"
  by (rule with_challenge_fields) (simp add: challenge_future_def)

lemma past_fields:
  "proof_fields (with_challenge challenge_past) challenge_past nym0 ''good''"
  by (rule with_challenge_fields) (simp add: challenge_past_def)

lemma proof_unsigned_missing: "falsy (body_signature proof_unsigned)"
  by (simp add: proof_unsigned_def falsy_def)

lemma record1_verified: "verified record1"
  by (simp add: record1_def mark_verified_def)

lemma store1_record1: "store1 nonce0 = Some record1"
  by (simp add: store1_eq record1_def)

lemma issue_sweeps_store1:
  "after simple_platform (Issue other_nonce 400000 400000) store1 nonce0 = None"
  by (simp add: start_auth_def Let_def simple_platform_def store1_eq sweep_def
      other_nonce_def nonce0_def mark_verified_def record0_def)

lemma submission0_effects:
  "snd (guestbook_submit True FetchNotOk True 292000 submission0 store1) =
     [InsertOne \<lparr>doc_paymentCode = nym0, doc_nymName = nym0, doc_nymAvatar = None,
                 doc_message = ''hello'', doc_signature = ''good'', doc_verified = True,
                 doc_createdAt = 292000, doc_nonce = nonce0\<rparr>,
      Delete nonce0]"
  by (simp add: guestbook_submit_def Let_def submission0_def falsy_def store1_eq
      mark_verified_def record0_def paynym_name_def paynym_avatar_def nonce0_def nym0_def
      challenge0_def)

lemma submit_consumes_store1:
  "after simple_platform (Submit True FetchNotOk True 292000 submission0) store1 nonce0 = None"
  by (simp add: submission0_effects)

lemma start_auth0:
  "start_auth simple_platform nonce0 0 0 Map.empty =
     (StartJson challenge0 (''data:image/png;base64,'' @ challenge0) nonce0
        ''http://localhost:3000/callback'' 300, store0)"
proof -
  have "toDataURL simple_platform challenge0 = Inr (''data:image/png;base64,'' @ challenge0)"
    by (simp add: simple_platform_def)
  moreover have "CALLBACK_URL simple_platform = ''http://localhost:3000/callback''"
    by (simp add: simple_platform_def)
  ultimately show ?thesis
    by (simp add: start_auth_def Let_def challenge0_issued store0_eq sweep_upd sweep_empty
        record0_def)
qed

lemma challenge0_url:
  "new_URL simple_platform challenge0 =
     Some \<lparr>hostname = nonce0, pathname = [],
            search = ''?c=http://localhost:3000/callback&e=300''\<rparr>"
  by (simp add: simple_platform_def simple_URL_def challenge0_def nonce0_def
      is_alpha_def is_digit_def)

lemma callback_proof0:
  "callback simple_platform 290000 proof0 store0 =
     ((Redirect (''/callback?nonce='' @ nonce0),
       ''Authentication successful via callback for '' @ nym0), store1)"
  using callback_signature [OF proof0_fields challenge0_parsed, of store0 record0 290000]
  by (simp add: store0_eq fresh_300 parseInt_300 record0_def proof0_good store1_eq)

lemma submission0_stored:
  "guestbook_submit True FetchNotOk True 292000 submission0 store1 =
     (SubmitOk doc0, [InsertOne doc0, Delete nonce0])"
  by (simp add: guestbook_submit_def Let_def submission0_def falsy_def store1_eq doc0_def
      mark_verified_def record0_def paynym_name_def paynym_avatar_def nonce0_def nym0_def
      challenge0_def)

lemma submission0_insert_fails:
  "guestbook_submit True FetchNotOk False 292000 submission0 store1 =
     (SubmitError 500 ''Failed to submit message'', [])"
  by (simp add: guestbook_submit_def Let_def submission0_def falsy_def store1_eq
      mark_verified_def record0_def nonce0_def nym0_def challenge0_def)

lemma submission0_unverified:
  "guestbook_submit True FetchNotOk True 292000 submission0 store0 =
     (SubmitError 401 ''Invalid or expired authentication'', [])"
  by (simp add: guestbook_submit_def Let_def submission0_def falsy_def store0_eq
      record0_def nonce0_def nym0_def challenge0_def)

lemma length_code111: "length code111 = 111"
  by (simp add: code111_def)

lemma length_nym0: "length nym0 = 116"
  by (simp add: nym0_def)

lemma code80_shape:
  "\<exists>pc r. Some code80 = Some pc \<and> pc = ''PM8T'' @ r \<and> length pc = 80
     \<and> set pc \<subseteq> set BASE58_ALPHABET \<and> fromBase58 accepting pc"
  by (simp add: code80_def BASE58_ALPHABET_def accepting_def)

lemma submission0_present: "fields_present submission0"
  by (simp add: fields_present_def submission0_def falsy_def nonce0_def nym0_def challenge0_def)

lemma store0_unauthenticated: "\<not> authenticated store0 nonce0 nym0"
  by (simp add: authenticated_def store0_eq record0_def)

lemma store1_authenticated: "authenticated store1 nonce0 nym0"
  by (simp add: authenticated_def store1_eq mark_verified_def)

section \<open>The claims\<close>

text \<open>
  C1 (single use). Let the record of a nonce be verified, as a commit of either
  redemption path leaves it. Every later redemption attempt against that nonce that
  passes the presence check, the parse, the lookup and both expiry checks is rejected:
  \<^verbatim>\<open>POST /verify\<close> answers 400 with the error \<^verbatim>\<open>Nonce already used\<close>,
  \<^verbatim>\<open>POST /callback\<close> logs \<^verbatim>\<open>Nonce already used in callback\<close> and serves the page.
  The outcome is the same for every verifier \<open>vp\<close>, so the signature is never looked at,
  and the store is returned unchanged.
\<close>

theorem nonce_already_used:
  assumes "proof_fields b c n sg" and "parsed P c nonce e" and "s nonce = Some a"
    and "fresh P e now" and "parseInt P e = Some (expiry a)" and "verified a"
  shows "verify (P\<lparr>verifyProof := vp\<rparr>) now b s =
           (VerifyError 400 ''Nonce already used'', s)
       \<and> callback (P\<lparr>verifyProof := vp\<rparr>) now b s =
           ((callback_html, ''Nonce already used in callback''), s)"
proof -
  let ?P = "P\<lparr>verifyProof := vp\<rparr>"
  have p: "parsed ?P c nonce e" using assms(2) by simp
  have f: "fresh ?P e now" using assms(4) by simp
  have i: "parseInt ?P e = Some (expiry a)" using assms(5) by simp
  show ?thesis
    using verify_used [where P = ?P and s = s and nonce = nonce,
        OF assms(1) p assms(3) f i assms(6)]
      callback_used [where P = ?P and s = s and nonce = nonce,
        OF assms(1) p assms(3) f i assms(6)]
    by simp
qed

text \<open>
  The run of the specification's scenario: the proof is redeemed at second 290, which
  commits the record; replayed at second 291 on either path it is refused.
\<close>

theorem nonce_already_used_witness:
  "fst (verify simple_platform 290000 proof0 store0) = VerifyOk nym0
   \<and> store1 nonce0 = Some (mark_verified record0 nym0 challenge0 ''good'')
   \<and> verified (mark_verified record0 nym0 challenge0 ''good'')
   \<and> verify simple_platform 291000 proof0 store1 =
       (VerifyError 400 ''Nonce already used'', store1)
   \<and> callback simple_platform 291000 proof0 store1 =
       ((callback_html, ''Nonce already used in callback''), store1)"
proof -
  have ok: "fst (verify simple_platform 290000 proof0 store0) = VerifyOk nym0"
    by (simp add: verify_proof0)
  have r: "store1 nonce0 = Some (mark_verified record0 nym0 challenge0 ''good'')"
    by (simp add: store1_eq)
  have e: "parseInt simple_platform ''300'' =
             Some (expiry (mark_verified record0 nym0 challenge0 ''good''))"
    by (simp add: parseInt_300 mark_verified_def record0_def)
  have v: "verified (mark_verified record0 nym0 challenge0 ''good'')"
    by (simp add: mark_verified_def)
  have f: "fresh simple_platform ''300'' 291000" by (simp add: fresh_300)
  show ?thesis
    using ok r v nonce_already_used [where s = store1 and nonce = nonce0
        and vp = "verifyProof simple_platform", OF proof0_fields challenge0_parsed r f e v]
    by simp
qed

text \<open>
  C2 (expiry enforcement). Let a redemption attempt pass the presence check and the
  parse, let its nonce have a record, and let the expiry \<open>t\<close> read from the submitted
  challenge satisfy \<open>t \<le> now\<close>, the current time in whole seconds. Then
  \<^verbatim>\<open>POST /verify\<close> answers 400 with \<^verbatim>\<open>Challenge has expired\<close> and
  \<^verbatim>\<open>POST /callback\<close> logs \<^verbatim>\<open>Challenge has expired in callback\<close> and serves the
  page, whatever the verifier \<open>vp\<close> would say of the signature, and the store is
  unchanged.
\<close>

theorem challenge_expired:
  assumes "proof_fields b c n sg" and "parsed P c nonce e" and "s nonce = Some a"
    and "parseInt P e = Some t" and "t \<le> now div 1000"
  shows "verify (P\<lparr>verifyProof := vp\<rparr>) now b s =
           (VerifyError 400 ''Challenge has expired'', s)
       \<and> callback (P\<lparr>verifyProof := vp\<rparr>) now b s =
           ((callback_html, ''Challenge has expired in callback''), s)"
proof -
  let ?P = "P\<lparr>verifyProof := vp\<rparr>"
  have p: "parsed ?P c nonce e" using assms(2) by simp
  have i: "parseInt ?P e = Some t" using assms(4) by simp
  show ?thesis
    using verify_expired [where P = ?P and s = s and nonce = nonce,
        OF assms(1) p assms(3) i assms(5)]
      callback_expired [where P = ?P and s = s and nonce = nonce,
        OF assms(1) p assms(3) i assms(5)]
    by simp
qed

text \<open>
  The proof with the signature the verifier accepts, presented at second 300 exactly,
  when the challenge issued at second 0 expires.
\<close>

theorem challenge_expired_witness:
  "verifyProof simple_platform proof0 = ProofOk
   \<and> store0 nonce0 = Some record0 \<and> expiry record0 = 300
   \<and> verify simple_platform 300000 proof0 store0 =
       (VerifyError 400 ''Challenge has expired'', store0)
   \<and> callback simple_platform 300000 proof0 store0 =
       ((callback_html, ''Challenge has expired in callback''), store0)"
proof -
  have r: "store0 nonce0 = Some record0" by (simp add: store0_eq)
  have t: "(300::int) \<le> 300000 div 1000" by simp
  show ?thesis
    using r proof0_good challenge_expired [where s = store0 and nonce = nonce0
        and vp = "verifyProof simple_platform",
        OF proof0_fields challenge0_parsed r parseInt_300 t]
    by (simp add: record0_def)
qed

text \<open>
  C3 (tamper detection), as stated: every attempt whose expiry parameter was altered
  from the stored value, the nonce still naming a live record, fails with the expiry
  mismatch. It does not: the freshness check comes before the consistency check, so an
  expiry altered from 300 to 200 and presented at second 250 is reported as expired.
\<close>

theorem expiry_tamper_counterexample:
  "store0 nonce0 = Some record0 \<and> expiry record0 = 300
   \<and> parsed simple_platform challenge_past nonce0 ''200''
   \<and> parseInt simple_platform ''200'' = Some 200
   \<and> verify simple_platform 250000 (with_challenge challenge_past) store0 =
       (VerifyError 400 ''Challenge has expired'', store0)
   \<and> fst (verify simple_platform 250000 (with_challenge challenge_past) store0) \<noteq>
       VerifyError 400 ''Expiry mismatch in challenge''"
proof -
  have r: "store0 nonce0 = Some record0" by (simp add: store0_eq)
  have f: "proof_fields (with_challenge challenge_past) challenge_past nym0 ''good''"
    by (rule with_challenge_fields) (simp add: challenge_past_def)
  have t: "(200::int) \<le> 250000 div 1000" by simp
  have "verify simple_platform 250000 (with_challenge challenge_past) store0 =
          (VerifyError 400 ''Challenge has expired'', store0)"
    using verify_expired [where s = store0 and nonce = nonce0,
        OF f challenge_past_parsed r parseInt_200 t] .
  then show ?thesis
    using r challenge_past_parsed parseInt_200 by (simp add: record0_def)
qed

text \<open>
  C3 as amended. Let a redemption attempt pass the presence check and the parse, and let
  its nonce have a record. If the expiry read from the submitted challenge passes the
  freshness check (it is a number greater than the current second, or not a number at
  all) and is not the expiry stored in the record, then \<^verbatim>\<open>POST /verify\<close> answers 400
  with \<^verbatim>\<open>Expiry mismatch in challenge\<close> and \<^verbatim>\<open>POST /callback\<close> logs
  \<^verbatim>\<open>Expiry mismatch in callback\<close> and serves the page, for every verifier, and the
  store is unchanged.
\<close>

theorem expiry_mismatch:
  assumes "proof_fields b c n sg" and "parsed P c nonce e" and "s nonce = Some a"
    and "fresh P e now" and "parseInt P e \<noteq> Some (expiry a)"
  shows "verify (P\<lparr>verifyProof := vp\<rparr>) now b s =
           (VerifyError 400 ''Expiry mismatch in challenge'', s)
       \<and> callback (P\<lparr>verifyProof := vp\<rparr>) now b s =
           ((callback_html, ''Expiry mismatch in callback''), s)"
proof -
  let ?P = "P\<lparr>verifyProof := vp\<rparr>"
  have p: "parsed ?P c nonce e" using assms(2) by simp
  have f: "fresh ?P e now" using assms(4) by simp
  have i: "parseInt ?P e \<noteq> Some (expiry a)" using assms(5) by simp
  show ?thesis
    using verify_mismatch [where P = ?P and s = s and nonce = nonce,
        OF assms(1) p assms(3) f i]
      callback_mismatch [where P = ?P and s = s and nonce = nonce,
        OF assms(1) p assms(3) f i]
    by simp
qed

text \<open>The expiry altered from 300 to 400, presented at second 250.\<close>

theorem expiry_mismatch_witness:
  "store0 nonce0 = Some record0 \<and> expiry record0 = 300
   \<and> parsed simple_platform challenge_future nonce0 ''400''
   \<and> verify simple_platform 250000 (with_challenge challenge_future) store0 =
       (VerifyError 400 ''Expiry mismatch in challenge'', store0)
   \<and> callback simple_platform 250000 (with_challenge challenge_future) store0 =
       ((callback_html, ''Expiry mismatch in callback''), store0)"
proof -
  have r: "store0 nonce0 = Some record0" by (simp add: store0_eq)
  have f: "proof_fields (with_challenge challenge_future) challenge_future nym0 ''good''"
    by (rule with_challenge_fields) (simp add: challenge_future_def)
  have fr: "fresh simple_platform ''400'' 250000" by (simp add: fresh_def parseInt_400)
  have ne: "parseInt simple_platform ''400'' \<noteq> Some (expiry record0)"
    by (simp add: parseInt_400 record0_def)
  show ?thesis
    using r challenge_future_parsed expiry_mismatch [where s = store0 and nonce = nonce0
        and vp = "verifyProof simple_platform", OF f challenge_future_parsed r fr ne]
    by (simp add: record0_def)
qed

text \<open>
  C4 (order of the checks). Both handlers run the presence check, the parse, the lookup,
  the freshness check, the consistency check and the replay check in this order, then the
  verifier, and stop at the first check that fails with the error of that check. Each
  line below assumes that the earlier checks pass and that one check fails, and nothing
  about the later ones. A body lacking a field is refused with the missing-fields error
  whatever the store holds, and a challenge that does not parse is refused with a
  malformed-challenge error whatever the store holds; in each refusal the store is
  returned as it was. Only when all six checks pass does the verifier decide. The parse
  fails when the URL constructor throws or when the parameter \<open>e\<close> is absent or empty;
  an \<open>e\<close> that is present but not a number passes the parse and is refused, after the
  lookup, by the consistency check.
\<close>

theorem verification_order:
  "(falsy (body_challenge b) \<or> falsy (body_nym b) \<or> falsy (body_signature b) \<longrightarrow>
      verify P now b s =
        (VerifyError 400 ''Missing required fields: challenge, nym, signature'', s)
      \<and> callback P now b s = ((callback_html, ''Missing required fields in callback''), s))
   \<and> (proof_fields b c n sg \<longrightarrow>
        (new_URL P c = None \<longrightarrow>
           verify P now b s = (VerifyError 400 ''Invalid challenge format'', s)
           \<and> callback P now b s =
               ((callback_html, ''Invalid challenge format in callback: '' @ c), s))
      \<and> (new_URL P c = Some u \<and> falsy (searchParams_get P (search u) ''e'') \<longrightarrow>
           verify P now b s = (VerifyError 400 ''Missing expiry parameter in challenge'', s)
           \<and> callback P now b s =
               ((callback_html, ''Missing expiry parameter in challenge''), s))
      \<and> (parsed P c nonce e \<longrightarrow>
           (s nonce = None \<longrightarrow>
              verify P now b s = (VerifyError 400 ''Invalid or expired nonce'', s)
              \<and> callback P now b s =
                  ((callback_html, ''Invalid or expired nonce in callback''), s))
         \<and> (s nonce = Some a \<longrightarrow>
              (parseInt P e = Some t \<and> t \<le> now div 1000 \<longrightarrow>
                 verify P now b s = (VerifyError 400 ''Challenge has expired'', s)
                 \<and> callback P now b s =
                     ((callback_html, ''Challenge has expired in callback''), s))
            \<and> (fresh P e now \<longrightarrow>
                 (parseInt P e \<noteq> Some (expiry a) \<longrightarrow>
                    verify P now b s = (VerifyError 400 ''Expiry mismatch in challenge'', s)
                    \<and> callback P now b s =
                        ((callback_html, ''Expiry mismatch in callback''), s))
               \<and> (parseInt P e = Some (expiry a) \<longrightarrow>
                    (verified a \<longrightarrow>
                       verify P now b s = (VerifyError 400 ''Nonce already used'', s)
                       \<and> callback P now b s =
                           ((callback_html, ''Nonce already used in callback''), s))
                  \<and> (\<not> verified a \<longrightarrow>
                       verify P now b s =
                         (case verifyProof P b of
                            ProofOk \<Rightarrow> (VerifyOk n, s(nonce \<mapsto> mark_verified a n c sg))
                          | ProofError err \<Rightarrow> (VerifyError 200 err, s)
                          | ProofThrows msg \<Rightarrow> (VerifyError 400 msg, s))
                       \<and> callback P now b s =
                           (case verifyProof P b of
                              ProofOk \<Rightarrow>
                                ((Redirect (''/callback?nonce='' @ nonce),
                                  ''Authentication successful via callback for '' @ n),
                                 s(nonce \<mapsto> mark_verified a n c sg))
                            | ProofError err \<Rightarrow>
                                ((Redirect (''/callback?nonce='' @ nonce),
                                  ''Callback verification failed: '' @ err), s)
                            | ProofThrows msg \<Rightarrow>
                                ((callback_html, ''Callback verification error: '' @ msg),
                                 s))))))))"
  by (intro conjI impI; (elim conjE)?;
      (rule verify_missing callback_missing verify_invalid_format callback_invalid_format
         verify_missing_expiry callback_missing_expiry verify_unknown_nonce
         callback_unknown_nonce verify_expired callback_expired verify_mismatch
         callback_mismatch verify_used callback_used verify_signature callback_signature;
       assumption))

text \<open>One request for each of the nine exits of \<^verbatim>\<open>POST /verify\<close>.\<close>

theorem verification_order_witness:
  "verify simple_platform 290000 proof_unsigned store0 =
     (VerifyError 400 ''Missing required fields: challenge, nym, signature'', store0)
   \<and> verify simple_platform 290000 (with_challenge ''not a url'') store0 =
       (VerifyError 400 ''Invalid challenge format'', store0)
   \<and> verify simple_platform 290000 (with_challenge challenge_noexpiry) store0 =
       (VerifyError 400 ''Missing expiry parameter in challenge'', store0)
   \<and> verify simple_platform 290000 proof0 Map.empty =
       (VerifyError 400 ''Invalid or expired nonce'', Map.empty)
   \<and> verify simple_platform 300000 proof0 store0 =
       (VerifyError 400 ''Challenge has expired'', store0)
   \<and> verify simple_platform 250000 (with_challenge challenge_future) store0 =
       (VerifyError 400 ''Expiry mismatch in challenge'', store0)
   \<and> verify simple_platform 291000 proof0 store1 =
       (VerifyError 400 ''Nonce already used'', store1)
   \<and> verify simple_platform 290000 proof_forged store0 =
       (VerifyError 200 ''invalid signature'', store0)
   \<and> verify simple_platform 290000 proof0 store0 = (VerifyOk nym0, store1)"
proof -
  have r0: "store0 nonce0 = Some record0" by (simp add: store0_eq)
  have r1: "store1 nonce0 = Some (mark_verified record0 nym0 challenge0 ''good'')"
    by (simp add: store1_eq)
  have e0: "expiry record0 = 300" "\<not> verified record0" by (simp_all add: record0_def)
  have e1: "expiry (mark_verified record0 nym0 challenge0 ''good'') = 300"
    "verified (mark_verified record0 nym0 challenge0 ''good'')"
    by (simp_all add: mark_verified_def record0_def)
  have c1: "verify simple_platform 290000 proof_unsigned store0 =
     (VerifyError 400 ''Missing required fields: challenge, nym, signature'', store0)"
    using verification_order [where b = proof_unsigned and P = simple_platform
        and now = 290000 and s = store0]
    by (simp add: proof_unsigned_missing)
  have c2: "verify simple_platform 290000 (with_challenge ''not a url'') store0 =
       (VerifyError 400 ''Invalid challenge format'', store0)"
    using verification_order [where b = "with_challenge ''not a url''"
        and P = simple_platform and now = 290000 and s = store0 and c = "''not a url''"
        and n = nym0 and sg = "''good''"]
    by (simp add: nourl_fields not_a_url)
  have c3: "verify simple_platform 290000 (with_challenge challenge_noexpiry) store0 =
       (VerifyError 400 ''Missing expiry parameter in challenge'', store0)"
    using verification_order [where b = "with_challenge challenge_noexpiry"
        and P = simple_platform and now = 290000 and s = store0 and c = challenge_noexpiry
        and n = nym0 and sg = "''good''"
        and u = "\<lparr>hostname = nonce0, pathname = [],
                   search = ''?c=http://localhost:3000/callback''\<rparr>"]
    by (simp add: noexpiry_fields challenge_noexpiry_url challenge_noexpiry_get)
  have c4: "verify simple_platform 290000 proof0 Map.empty =
       (VerifyError 400 ''Invalid or expired nonce'', Map.empty)"
    using verification_order [where b = proof0 and P = simple_platform and now = 290000
        and s = Map.empty and c = challenge0 and n = nym0 and sg = "''good''"
        and nonce = nonce0 and e = "''300''"]
    by (simp add: proof0_fields challenge0_parsed)
  have c5: "verify simple_platform 300000 proof0 store0 =
       (VerifyError 400 ''Challenge has expired'', store0)"
    using verification_order [where b = proof0 and P = simple_platform and now = 300000
        and s = store0 and c = challenge0 and n = nym0 and sg = "''good''"
        and nonce = nonce0 and e = "''300''" and a = record0 and t = 300]
    by (simp add: proof0_fields challenge0_parsed r0 parseInt_300)
  have c6: "verify simple_platform 250000 (with_challenge challenge_future) store0 =
       (VerifyError 400 ''Expiry mismatch in challenge'', store0)"
    using verification_order [where b = "with_challenge challenge_future"
        and P = simple_platform and now = 250000
        and s = store0 and c = challenge_future and n = nym0 and sg = "''good''"
        and nonce = nonce0 and e = "''400''" and a = record0]
    by (simp add: future_fields challenge_future_parsed r0 parseInt_400 fresh_def e0)
  have c7: "verify simple_platform 291000 proof0 store1 =
       (VerifyError 400 ''Nonce already used'', store1)"
    using verification_order [where b = proof0 and P = simple_platform and now = 291000
        and s = store1 and c = challenge0 and n = nym0 and sg = "''good''"
        and nonce = nonce0 and e = "''300''"
        and a = "mark_verified record0 nym0 challenge0 ''good''"]
    by (simp add: proof0_fields challenge0_parsed r1 parseInt_300 fresh_300 e1)
  have c8: "verify simple_platform 290000 proof_forged store0 =
       (VerifyError 200 ''invalid signature'', store0)"
    using verification_order [where b = proof_forged and P = simple_platform and now = 290000
        and s = store0 and c = challenge0 and n = nym0 and sg = "''bad''"
        and nonce = nonce0 and e = "''300''" and a = record0]
    by (simp add: proof_forged_fields challenge0_parsed r0 parseInt_300 fresh_300 e0
        proof_forged_bad)
  have c9: "verify simple_platform 290000 proof0 store0 = (VerifyOk nym0, store1)"
    using verification_order [where b = proof0 and P = simple_platform and now = 290000
        and s = store0 and c = challenge0 and n = nym0 and sg = "''good''"
        and nonce = nonce0 and e = "''300''" and a = record0]
    by (simp add: proof0_fields challenge0_parsed r0 parseInt_300 fresh_300 e0
        proof0_good store1_eq store0_eq)
  show ?thesis using c1 c2 c3 c4 c5 c6 c7 c8 c9 by simp
qed

text \<open>
  C5 (monotonicity of \<open>verified\<close>), as stated: no operation, issuance included, ever
  turns \<open>verified\<close> from true to false or changes a verified record otherwise than by
  deleting it. It does not hold of an issuance that draws the nonce of a live record:
  \<^verbatim>\<open>pendingAuths.set\<close> has no collision check and replaces the verified record of
  the run by a new one with \<open>verified = False\<close>.
\<close>

theorem verified_reset_counterexample:
  "store1 nonce0 = Some record1 \<and> verified record1
   \<and> after simple_platform (Issue nonce0 291000 291000) store1 nonce0 =
       Some (fresh_record 291000 591)
   \<and> \<not> verified (fresh_record 291000 591)
   \<and> after simple_platform (Issue nonce0 291000 291000) store1 nonce0 \<noteq> Some record1
   \<and> after simple_platform (Issue nonce0 291000 291000) store1 nonce0 \<noteq> None"
proof -
  have q: "\<And>x. toDataURL simple_platform x = Inr (''data:image/png;base64,'' @ x)"
    by (simp add: simple_platform_def)
  have i: "after simple_platform (Issue nonce0 291000 291000) store1 nonce0 =
       Some (fresh_record 291000 591)"
    by (simp add: start_auth_def Let_def q sweep_def fresh_record_def)
  have v: "\<not> verified (fresh_record 291000 591)" by (simp add: fresh_record_def)
  have d: "Some (fresh_record 291000 591) \<noteq> Some record1"
    using v record1_verified by auto
  show ?thesis using store1_record1 record1_verified i v d by simp
qed

text \<open>
  C5 as amended. Let the record \<open>a\<close> stored under \<open>k\<close> be verified. After any
  operation of the system (an issuance with its sweep, a status poll, a redemption on
  either path, a guestbook submission), provided that an issuance draws a nonce that is
  not a key of the store, the store holds under \<open>k\<close> the very same record \<open>a\<close>, all
  fields as before, or no record at all; and the record is gone only after an issuance
  whose sweep found it too old or after a guestbook submission for \<open>k\<close>.
\<close>

theorem verified_monotonic:
  assumes "s k = Some a" and "verified a" and "draws_fresh op s"
  shows "after P op s k = Some a \<or> (after P op s k = None \<and> may_delete op k a)"
proof (cases op)
  case (Issue nonce now0 now1)
  then show ?thesis
    using assms start_auth_keeps_verified [of s k a nonce P now0 now1] by auto
next
  case (Poll nonce)
  then show ?thesis using assms by (simp add: check_auth_keeps)
next
  case (RedeemDirect now b)
  then show ?thesis using assms by (simp add: verify_keeps_verified)
next
  case (RedeemCallback now b)
  then show ?thesis using assms by (simp add: callback_keeps_verified)
next
  case (Submit db_up f insert_ok created b)
  then show ?thesis
    using assms submit_keeps_verified [of s k a P db_up f insert_ok created b]
    by (auto split: if_splits)
qed

text \<open>
  The verified record of the run survives a poll and a replay on either path, and is
  deleted by the sweep of an issuance at second 400 and by a guestbook submission.
\<close>

theorem verified_monotonic_witness:
  "store1 nonce0 = Some record1 \<and> verified record1
   \<and> after simple_platform (Poll nonce0) store1 nonce0 = Some record1
   \<and> after simple_platform (RedeemDirect 291000 proof0) store1 nonce0 = Some record1
   \<and> after simple_platform (RedeemCallback 291000 proof0) store1 nonce0 = Some record1
   \<and> after simple_platform (Issue other_nonce 400000 400000) store1 nonce0 = None
   \<and> after simple_platform (Submit True FetchNotOk True 292000 submission0) store1 nonce0
       = None"
proof -
  have f: "draws_fresh (Issue other_nonce 400000 400000) store1"
    by (simp add: store1_eq other_nonce_def nonce0_def)
  note m = verified_monotonic [where s = store1 and k = nonce0 and P = simple_platform,
      OF store1_record1 record1_verified]
  show ?thesis
    using store1_record1 record1_verified
      m [of "Poll nonce0"] m [of "RedeemDirect 291000 proof0"]
      m [of "RedeemCallback 291000 proof0"]
      m [of "Issue other_nonce 400000 400000", OF f] issue_sweeps_store1
      m [of "Submit True FetchNotOk True 292000 submission0"] submit_consumes_store1
    by simp
qed

text \<open>
  C6 (round trip). A successful issuance returns the nonce it stored, and a poll of that
  nonce right after it answers \<open>pending\<close>. When \<^verbatim>\<open>POST /verify\<close> answers \<open>ok\<close> with the
  identity \<open>n\<close>, or \<^verbatim>\<open>POST /callback\<close> reports a successful authentication for \<open>n\<close>,
  then \<open>n\<close> is the \<open>nym\<close> of the submitted proof and a poll of the nonce of the
  submitted challenge answers \<open>verified\<close> with \<open>nym = paymentCode = n\<close> and the
  challenge and signature of the proof. A poll of a nonce without a record answers
  \<open>invalid\<close>. A poll never changes the store.
\<close>

theorem status_round_trip:
  "(start_auth P nonce ta tb s = (StartJson uri qr nonce' cb e, sa) \<longrightarrow>
      nonce' = nonce \<and> check_auth nonce' sa = (StatusPending, sa))
   \<and> (verify P now b s = (VerifyOk n, sb) \<and> body_challenge b = Some c
        \<and> new_URL P c = Some u \<longrightarrow>
      body_nym b = Some n
      \<and> check_auth (extract_nonce u) sb =
          (StatusVerified (Some n) (Some n) (body_challenge b) (body_signature b), sb))
   \<and> (callback P now b s =
         ((r, ''Authentication successful via callback for '' @ n), sc)
        \<and> body_challenge b = Some c \<and> new_URL P c = Some u \<longrightarrow>
      body_nym b = Some n
      \<and> check_auth (extract_nonce u) sc =
          (StatusVerified (Some n) (Some n) (body_challenge b) (body_signature b), sc))
   \<and> (s nonce = None \<longrightarrow> check_auth nonce s = (StatusInvalid, s))"
proof (intro conjI impI)
  assume "start_auth P nonce ta tb s = (StartJson uri qr nonce' cb e, sa)"
  then show "nonce' = nonce" and "check_auth nonce' sa = (StatusPending, sa)"
    by (auto simp add: start_auth_def Let_def sweep_def check_auth_def split: sum.splits)
next
  assume h: "verify P now b s = (VerifyOk n, sb) \<and> body_challenge b = Some c
        \<and> new_URL P c = Some u"
  with verify_ok_commits [of P now b s n sb]
  show "body_nym b = Some n" by auto
  from h verify_ok_commits [of P now b s n sb]
  show "check_auth (extract_nonce u) sb =
          (StatusVerified (Some n) (Some n) (body_challenge b) (body_signature b), sb)"
    by (auto simp add: check_auth_def mark_verified_def)
next
  assume h: "callback P now b s =
         ((r, ''Authentication successful via callback for '' @ n), sc)
        \<and> body_challenge b = Some c \<and> new_URL P c = Some u"
  with callback_ok_commits [of P now b s r n sc]
  show "body_nym b = Some n" by auto
  from h callback_ok_commits [of P now b s r n sc]
  show "check_auth (extract_nonce u) sc =
          (StatusVerified (Some n) (Some n) (body_challenge b) (body_signature b), sc)"
    by (auto simp add: check_auth_def mark_verified_def)
next
  assume "s nonce = None"
  then show "check_auth nonce s = (StatusInvalid, s)" by (simp add: check_auth_def)
qed

text \<open>The run: issue, poll, redeem on either path, poll again, poll an unknown nonce.\<close>

theorem status_round_trip_witness:
  "start_auth simple_platform nonce0 0 0 Map.empty =
     (StartJson challenge0 (''data:image/png;base64,'' @ challenge0) nonce0
        ''http://localhost:3000/callback'' 300, store0)
   \<and> check_auth nonce0 store0 = (StatusPending, store0)
   \<and> verify simple_platform 290000 proof0 store0 = (VerifyOk nym0, store1)
   \<and> callback simple_platform 290000 proof0 store0 =
       ((Redirect (''/callback?nonce='' @ nonce0),
         ''Authentication successful via callback for '' @ nym0), store1)
   \<and> check_auth nonce0 store1 =
       (StatusVerified (Some nym0) (Some nym0) (Some challenge0) (Some ''good''), store1)
   \<and> check_auth other_nonce store1 = (StatusInvalid, store1)"
proof -
  have v: "verify simple_platform 290000 proof0 store0 = (VerifyOk nym0, store1)"
    by (simp add: verify_proof0 store1_eq)
  have c: "body_challenge proof0 = Some challenge0" "body_signature proof0 = Some ''good''"
    by (simp_all add: proof0_def)
  have x: "extract_nonce \<lparr>hostname = nonce0, pathname = [],
            search = ''?c=http://localhost:3000/callback&e=300''\<rparr> = nonce0"
    by (simp add: extract_nonce_def nonce0_def)
  have o: "store1 other_nonce = None"
    by (simp add: store1_eq other_nonce_def nonce0_def)
  note rt = status_round_trip [where P = simple_platform and s = "Map.empty"
      and nonce = nonce0 and ta = 0 and tb = 0 and sa = store0 and nonce' = nonce0
      and uri = challenge0 and qr = "''data:image/png;base64,'' @ challenge0"
      and cb = "''http://localhost:3000/callback''" and e = 300]
  note rv = status_round_trip [where P = simple_platform and s = store0
      and now = 290000 and b = proof0 and n = nym0 and sb = store1 and c = challenge0
      and u = "\<lparr>hostname = nonce0, pathname = [],
            search = ''?c=http://localhost:3000/callback&e=300''\<rparr>"
      and r = "Redirect (''/callback?nonce='' @ nonce0)" and sc = store1]
  note ri = status_round_trip [where s = store1 and nonce = other_nonce]
  have p: "check_auth nonce0 store0 = (StatusPending, store0)"
    using rt start_auth0 by simp
  have d: "check_auth nonce0 store1 =
       (StatusVerified (Some nym0) (Some nym0) (Some challenge0) (Some ''good''), store1)"
    using rv v c challenge0_url x by simp
  have i: "check_auth other_nonce store1 = (StatusInvalid, store1)"
    using ri o by simp
  show ?thesis using start_auth0 p v callback_proof0 d i by simp
qed

text \<open>
  C7 (issuance). Whenever \<^verbatim>\<open>/start-auth\<close> answers with a challenge, the expiry it
  returns is the clock reading in whole seconds plus 300, the URI is the text
  \<^verbatim>\<open>auth47://\<close>, the nonce, \<^verbatim>\<open>?c=\<close>, the callback URL as configured, \<^verbatim>\<open>&e=\<close> and the
  expiry in decimal, the nonce returned is the one drawn, and the store holds under
  that nonce a record with \<open>verified = False\<close>, that same expiry and no redemption data.
\<close>

theorem issuance_contents:
  assumes "start_auth P nonce ta tb s = (StartJson uri qr nonce' cb e, sa)"
  shows "e = ta div 1000 + 300
       \<and> uri = ''auth47://'' @ nonce @ ''?c='' @ CALLBACK_URL P @ ''&e='' @ number_toString e
       \<and> nonce' = nonce \<and> cb = CALLBACK_URL P
       \<and> sa nonce = Some \<lparr>timestamp = tb, verified = False, expiry = e, nym = None,
                            paymentCode = None, challenge = None, signature = None\<rparr>"
  using assms
  by (auto simp add: start_auth_def Let_def sweep_def challenge_uri_def split: sum.splits)

text \<open>An issuance at 1700000000.123 s into the empty store.\<close>

theorem issuance_contents_witness:
  "start_auth simple_platform nonce0 1700000000123 1700000000456 Map.empty =
     (StartJson
        ''auth47://3f9a1c0e5b7d2a4866f0e1d2c3b4a5f6?c=http://localhost:3000/callback&e=1700000300''
        (''data:image/png;base64,'' @
         ''auth47://3f9a1c0e5b7d2a4866f0e1d2c3b4a5f6?c=http://localhost:3000/callback&e=1700000300'')
        nonce0 ''http://localhost:3000/callback'' 1700000300,
      snd (start_auth simple_platform nonce0 1700000000123 1700000000456 Map.empty))
   \<and> snd (start_auth simple_platform nonce0 1700000000123 1700000000456 Map.empty) nonce0 =
       Some \<lparr>timestamp = 1700000000456, verified = False, expiry = 1700000300, nym = None,
              paymentCode = None, challenge = None, signature = None\<rparr>"
proof -
  have n: "number_toString 1700000300 = ''1700000300''"
    by (simp add: number_toString_def decimal_nat.simps digit_char_def)
  have u: "challenge_uri simple_platform nonce0 1700000300 =
    ''auth47://3f9a1c0e5b7d2a4866f0e1d2c3b4a5f6?c=http://localhost:3000/callback&e=1700000300''"
    by (simp add: challenge_uri_def n) (simp add: simple_platform_def nonce0_def)
  have q: "\<And>x. toDataURL simple_platform x = Inr (''data:image/png;base64,'' @ x)"
    by (simp add: simple_platform_def)
  have c: "CALLBACK_URL simple_platform = ''http://localhost:3000/callback''"
    by (simp add: simple_platform_def)
  have f: "fst (start_auth simple_platform nonce0 1700000000123 1700000000456 Map.empty) =
     StartJson
        ''auth47://3f9a1c0e5b7d2a4866f0e1d2c3b4a5f6?c=http://localhost:3000/callback&e=1700000300''
        (''data:image/png;base64,'' @
         ''auth47://3f9a1c0e5b7d2a4866f0e1d2c3b4a5f6?c=http://localhost:3000/callback&e=1700000300'')
        nonce0 ''http://localhost:3000/callback'' 1700000300"
    by (simp add: start_auth_def Let_def u q c)
  have r: "start_auth simple_platform nonce0 1700000000123 1700000000456 Map.empty =
     (StartJson
        ''auth47://3f9a1c0e5b7d2a4866f0e1d2c3b4a5f6?c=http://localhost:3000/callback&e=1700000300''
        (''data:image/png;base64,'' @
         ''auth47://3f9a1c0e5b7d2a4866f0e1d2c3b4a5f6?c=http://localhost:3000/callback&e=1700000300'')
        nonce0 ''http://localhost:3000/callback'' 1700000300,
      snd (start_auth simple_platform nonce0 1700000000123 1700000000456 Map.empty))"
    by (simp add: prod_eq_iff f)
  have i: "snd (start_auth simple_platform nonce0 1700000000123 1700000000456 Map.empty) nonce0 =
       Some \<lparr>timestamp = 1700000000456, verified = False, expiry = 1700000300, nym = None,
              paymentCode = None, challenge = None, signature = None\<rparr>"
    using issuance_contents [OF r] by blast
  show ?thesis using r i by (rule conjI)
qed

text \<open>
  C8 (atomic issuance). If the QR encoder throws, \<^verbatim>\<open>/start-auth\<close> answers 500 with the
  encoder's message and returns the store as it was. If the encoder returns an image,
  the response carries it and the store holds the new record under the nonce. An error
  response is given only when the encoder threw, and then nothing was written.
\<close>

theorem issuance_atomic:
  "(toDataURL P (challenge_uri P nonce (ta div 1000 + 300)) = Inl msg \<longrightarrow>
      start_auth P nonce ta tb s = (StartError 500 msg, s))
   \<and> (toDataURL P (challenge_uri P nonce (ta div 1000 + 300)) = Inr qr \<longrightarrow>
      fst (start_auth P nonce ta tb s) =
        StartJson (challenge_uri P nonce (ta div 1000 + 300)) qr nonce (CALLBACK_URL P)
          (ta div 1000 + 300)
      \<and> snd (start_auth P nonce ta tb s) nonce =
          Some (fresh_record tb (ta div 1000 + 300)))
   \<and> (start_auth P nonce ta tb s = (StartError code msg', sa) \<longrightarrow>
      sa = s \<and> toDataURL P (challenge_uri P nonce (ta div 1000 + 300)) = Inl msg')"
  by (auto simp add: start_auth_def Let_def sweep_def fresh_record_def split: sum.splits)

text \<open>The same issuance on a platform whose encoder throws and on one whose encoder works.\<close>

theorem issuance_atomic_witness:
  "start_auth broken_encoder nonce0 0 0 Map.empty = (StartError 500 ''encoder failed'', Map.empty)
   \<and> snd (start_auth broken_encoder nonce0 0 0 Map.empty) nonce0 = None
   \<and> fst (start_auth simple_platform nonce0 0 0 Map.empty) =
       StartJson challenge0 (''data:image/png;base64,'' @ challenge0) nonce0
         ''http://localhost:3000/callback'' 300
   \<and> snd (start_auth simple_platform nonce0 0 0 Map.empty) nonce0 = Some (fresh_record 0 300)"
proof -
  have b: "toDataURL broken_encoder (challenge_uri broken_encoder nonce0 (0 div 1000 + 300)) =
             Inl ''encoder failed''"
    by (simp add: broken_encoder_def)
  have g: "toDataURL simple_platform (challenge_uri simple_platform nonce0 (0 div 1000 + 300)) =
             Inr (''data:image/png;base64,'' @ challenge0)"
    by (simp add: challenge0_issued) (simp add: simple_platform_def)
  have c: "CALLBACK_URL simple_platform = ''http://localhost:3000/callback''"
    by (simp add: simple_platform_def)
  show ?thesis
    using issuance_atomic [where P = broken_encoder and nonce = nonce0 and ta = 0 and tb = 0
        and s = Map.empty and msg = "''encoder failed''" and qr = "[]" and code = 500
        and msg' = "''encoder failed''" and sa = Map.empty]
      issuance_atomic [where P = simple_platform and nonce = nonce0 and ta = 0 and tb = 0
        and s = Map.empty and qr = "''data:image/png;base64,'' @ challenge0" and msg = "[]"
        and code = 500 and msg' = "[]" and sa = Map.empty]
      b g c
    by (simp add: challenge0_issued)
qed

text \<open>
  C9 (guestbook). A submission is answered with success only if the store holds, under
  the submitted nonce, a verified record whose \<open>paymentCode\<close> is the submitted \<open>nym\<close>;
  it then issues the insertion of the message followed by the deletion of the record,
  and nothing else. A submission for which the store holds no such record is rejected
  with an error response (401 once all fields are present and the database is up) and
  issues no write, so neither the collection nor the store changes. A message is written
  only for such a record. A submission that is not answered with success issues no write
  at all; in particular, when \<^verbatim>\<open>insertOne\<close> throws, nothing is deleted. And the
  deletion of the record is never issued before the insertion of the message: whenever
  the writes contain a deletion, what precedes it is exactly the insertion of the message
  for that nonce.
\<close>

theorem guestbook_consumption:
  assumes "guestbook_submit db_up f insert_ok created b s = (resp, effs)"
  shows "(\<forall>d. resp = SubmitOk d \<longrightarrow>
            sub_nonce b = Some (doc_nonce d) \<and> sub_nym b = Some (doc_paymentCode d)
            \<and> authenticated s (doc_nonce d) (doc_paymentCode d) \<and> insert_ok
            \<and> effs = [InsertOne d, Delete (doc_nonce d)])
       \<and> (\<forall>nonce n. sub_nonce b = Some nonce \<and> sub_nym b = Some n
              \<and> \<not> authenticated s nonce n \<longrightarrow>
            (\<exists>code msg. resp = SubmitError code msg) \<and> effs = [])
       \<and> (\<forall>nonce n. fields_present b \<and> db_up \<and> sub_nonce b = Some nonce \<and> sub_nym b = Some n
              \<and> \<not> authenticated s nonce n \<longrightarrow>
            resp = SubmitError 401 ''Invalid or expired authentication'')
       \<and> (\<forall>d. InsertOne d \<in> set effs \<longrightarrow>
            (\<exists>a. sub_nonce b = Some (doc_nonce d) \<and> sub_nym b = Some (doc_paymentCode d)
               \<and> s (doc_nonce d) = Some a \<and> verified a
               \<and> paymentCode a = Some (doc_paymentCode d)))
       \<and> ((\<forall>d. resp \<noteq> SubmitOk d) \<longrightarrow> effs = [])
       \<and> (\<not> insert_ok \<longrightarrow> effs = [])
       \<and> (\<forall>pre k post. effs = pre @ Delete k # post \<longrightarrow>
            (\<exists>d. pre = [InsertOne d] \<and> doc_nonce d = k \<and> post = []))"
proof -
  have c1: "\<forall>d. resp = SubmitOk d \<longrightarrow>
            sub_nonce b = Some (doc_nonce d) \<and> sub_nym b = Some (doc_paymentCode d)
            \<and> authenticated s (doc_nonce d) (doc_paymentCode d) \<and> insert_ok
            \<and> effs = [InsertOne d, Delete (doc_nonce d)]"
    using assms guestbook_success [of db_up f insert_ok created b s _ effs] by blast
  have c2: "\<forall>nonce n. sub_nonce b = Some nonce \<and> sub_nym b = Some n
              \<and> \<not> authenticated s nonce n \<longrightarrow>
            (\<exists>code msg. resp = SubmitError code msg) \<and> effs = []"
    using assms guestbook_rejected [of b _ _ s db_up f insert_ok created resp effs] by blast
  have c3: "\<forall>nonce n. fields_present b \<and> db_up \<and> sub_nonce b = Some nonce \<and> sub_nym b = Some n
              \<and> \<not> authenticated s nonce n \<longrightarrow>
            resp = SubmitError 401 ''Invalid or expired authentication''"
    using assms guestbook_unauthenticated [of b db_up _ _ s f insert_ok created] by auto
  from guestbook_cases [OF assms]
  consider (rejected) "effs = []" "\<forall>d. resp \<noteq> SubmitOk d"
    | (stored) a d where "insert_ok" "resp = SubmitOk d"
        "effs = [InsertOne d, Delete (doc_nonce d)]"
        "sub_nonce b = Some (doc_nonce d)" "sub_nym b = Some (doc_paymentCode d)"
        "s (doc_nonce d) = Some a" "verified a" "paymentCode a = Some (doc_paymentCode d)"
    by blast
  then have c4: "(\<forall>d. InsertOne d \<in> set effs \<longrightarrow>
            (\<exists>a. sub_nonce b = Some (doc_nonce d) \<and> sub_nym b = Some (doc_paymentCode d)
               \<and> s (doc_nonce d) = Some a \<and> verified a
               \<and> paymentCode a = Some (doc_paymentCode d)))
       \<and> ((\<forall>d. resp \<noteq> SubmitOk d) \<longrightarrow> effs = [])
       \<and> (\<not> insert_ok \<longrightarrow> effs = [])
       \<and> (\<forall>pre k post. effs = pre @ Delete k # post \<longrightarrow>
            (\<exists>d. pre = [InsertOne d] \<and> doc_nonce d = k \<and> post = []))"
  proof cases
    case rejected
    then show ?thesis by simp
  next
    case stored
    have "pre = [InsertOne d] \<and> doc_nonce d = k \<and> post = []"
      if "[InsertOne d, Delete (doc_nonce d)] = pre @ Delete k # post" for pre k post
      using that by (cases pre; cases "tl pre") (auto simp add: Cons_eq_append_conv)
    with stored show ?thesis by auto
  qed
  show ?thesis using c1 c2 c3 c4 by (intro conjI) blast+
qed

text \<open>
  The submission of the run against the verified record, the same when the insertion
  throws, and the same against the record before it is verified, where it is rejected.
\<close>

theorem guestbook_consumption_witness:
  "guestbook_submit True FetchNotOk True 292000 submission0 store1 =
     (SubmitOk doc0, [InsertOne doc0, Delete nonce0])
   \<and> store1 nonce0 = Some record1 \<and> verified record1 \<and> paymentCode record1 = Some nym0
   \<and> authenticated store1 nonce0 nym0
   \<and> perform_all [InsertOne doc0, Delete nonce0] ([], store1) =
       ([doc0], store1(nonce0 := None))
   \<and> guestbook_submit True FetchNotOk False 292000 submission0 store1 =
       (SubmitError 500 ''Failed to submit message'', [])
   \<and> \<not> authenticated store0 nonce0 nym0
   \<and> guestbook_submit True FetchNotOk True 292000 submission0 store0 =
       (SubmitError 401 ''Invalid or expired authentication'', [])"
proof -
  have p: "paymentCode record1 = Some nym0"
    by (simp add: record1_def mark_verified_def)
  have n: "sub_nonce submission0 = Some nonce0" "sub_nym submission0 = Some nym0"
    by (simp_all add: submission0_def)
  obtain resp effs where
    e: "guestbook_submit True FetchNotOk True 292000 submission0 store0 = (resp, effs)"
    by (cases "guestbook_submit True FetchNotOk True 292000 submission0 store0")
  have g: "resp = SubmitError 401 ''Invalid or expired authentication''" "effs = []"
    using guestbook_consumption [OF e] submission0_present n store0_unauthenticated by blast+
  have a: "authenticated store1 (doc_nonce doc0) (doc_paymentCode doc0)"
    using guestbook_consumption [OF submission0_stored] by blast
  show ?thesis
    using submission0_stored submission0_insert_fails e g a
      store1_record1 record1_verified p store0_unauthenticated
    by (simp add: doc0_def)
qed

text \<open>
  C10 (payment-code validation). The response carries \<open>valid = true\<close> exactly when the
  submitted text starts with \<^verbatim>\<open>PM8T\<close>, has 80 characters, consists of characters of
  the Base58 alphabet and is accepted by the payment-code parser. A non-empty text of
  any other length, such as the 111 characters of the client-side validator, gets
  \<open>valid = false\<close>; an empty or missing one gets the 400 error response, which has no
  field \<open>valid\<close>.
\<close>

theorem validate_valid:
  "(valid_field (bip47_validate P code) = Some True \<longleftrightarrow>
      (\<exists>pc r. code = Some pc \<and> pc = ''PM8T'' @ r \<and> length pc = 80
         \<and> set pc \<subseteq> set BASE58_ALPHABET \<and> fromBase58 P pc))
   \<and> (code = Some pc \<and> pc \<noteq> [] \<and> length pc \<noteq> 80 \<longrightarrow>
        valid_field (bip47_validate P code) = Some False)
   \<and> (code = Some pc \<and> length pc \<noteq> 80 \<longrightarrow>
        valid_field (bip47_validate P code) \<noteq> Some True)"
proof -
  have v: "valid_field (bip47_validate P code) = Some True \<longleftrightarrow>
      (\<exists>pc. code = Some pc \<and> startsWith pc ''PM8T'' \<and> length pc = 80
         \<and> base58_test pc \<and> fromBase58 P pc)"
    by (cases code)
      (auto simp add: bip47_validate_def valid_field_def falsy_def Let_def base58_test_def)
  have a: "valid_field (bip47_validate P code) = Some True \<longleftrightarrow>
      (\<exists>pc r. code = Some pc \<and> pc = ''PM8T'' @ r \<and> length pc = 80
         \<and> set pc \<subseteq> set BASE58_ALPHABET \<and> fromBase58 P pc)"
    unfolding v startsWith_prefix base58_test_alphabet by auto
  have b: "valid_field (bip47_validate P (Some pc)) = Some False"
    if "pc \<noteq> []" "length pc \<noteq> 80"
    using that by (simp add: bip47_validate_def valid_field_def falsy_def Let_def)
  have c: "valid_field (bip47_validate P (Some pc)) \<noteq> Some True" if "length pc \<noteq> 80"
    using that by (simp add: bip47_validate_def valid_field_def falsy_def Let_def)
  show ?thesis using a b c by blast
qed

text \<open>
  A text of 111 characters with a parser that accepts everything, the 116 characters of
  a payment code with a parser that accepts it, and a text of 80 characters.
\<close>

theorem validate_valid_witness:
  "length code111 = 111
   \<and> valid_field (bip47_validate accepting (Some code111)) = Some False
   \<and> length nym0 = 116 \<and> fromBase58 simple_platform nym0
   \<and> valid_field (bip47_validate simple_platform (Some nym0)) = Some False
   \<and> length code80 = 80
   \<and> valid_field (bip47_validate accepting (Some code80)) = Some True"
proof -
  have n111: "code111 \<noteq> []" by (simp add: code111_def)
  have nn: "nym0 \<noteq> []" by (simp add: nym0_def)
  have p: "fromBase58 simple_platform nym0"
    by (simp add: simple_platform_def length_nym0)
  have l80: "length code80 = 80" by (simp add: code80_def)
  have a: "valid_field (bip47_validate accepting (Some code111)) = Some False"
    using validate_valid [where P = accepting and code = "Some code111" and pc = code111]
      n111 length_code111 by simp
  have b: "valid_field (bip47_validate simple_platform (Some nym0)) = Some False"
    using validate_valid [where P = simple_platform and code = "Some nym0" and pc = nym0]
      nn length_nym0 by simp
  have c: "valid_field (bip47_validate accepting (Some code80)) = Some True"
    using validate_valid [where P = accepting and code = "Some code80" and pc = code80]
      code80_shape by blast
  show ?thesis using length_code111 a length_nym0 p b l80 c by simp
qed

end
